theory Spec2Isabelle
  imports Complex_Main
begin

section \<open>Payout models of \<^verbatim>\<open>earning_calculators.py\<close>\<close>

text \<open>
  The module holds five classes, each a constructor that stores a few prices and
  period rates and a method \<^verbatim>\<open>end_earning_rate\<close> that maps a terminal price to a
  return. Each class is a record here (the field \<^verbatim>\<open>self._x\<close> of class \<^verbatim>\<open>K\<close> is the
  record field \<open>k_x\<close>, since an Isabelle name cannot start with an underscore and
  field names are global), each constructor and method a definition of the same name
  prefixed by the class.

  Numbers: the source computes on Python floats, which are doubles. Two readings are
  kept apart. The definitions of this section take them as real numbers, so every
  operation is exact, and infinities and NaN are outside the model; a price is a real
  number. For the two barrier notes the next section gives the same constructor and
  method with every operation rounded as a double rounds it: their last branch rounds
  its two weights one by one, and what is true of its result depends on that.
  What Python does beyond returning a number is kept as a value: a failed \<^verbatim>\<open>assert\<close>
  is \<open>Inl AssertionError\<close>, a float division by a zero divisor is
  \<open>Inl ZeroDivisionError\<close> (Python raises there, HOL's \<open>x / 0\<close> is \<open>0\<close>), the use
  of a local variable that no branch assigned is \<open>Inl UnboundLocalError\<close>, and a
  method that falls off its last \<^verbatim>\<open>elif\<close> returns \<open>None\<close>.

  The script under \<^verbatim>\<open>__main__\<close> builds three of the objects, sweeps a range of
  prices and prints a table; it defines nothing that the classes use and is left out.
\<close>

datatype py_error = AssertionError | ZeroDivisionError | UnboundLocalError

definition py_div :: "real \<Rightarrow> real \<Rightarrow> py_error + real" where
  "py_div a b = (if b = 0 then Inl ZeroDivisionError else Inr (a / b))"

subsection \<open>BTCU\<close>

record BTCU =
  u_current_price :: real
  u_duration :: real
  u_hook_price :: real
  u_buy_price :: real
  u_earning_rate :: real

definition BTCU_init :: "real \<Rightarrow> real \<Rightarrow> real \<Rightarrow> real \<Rightarrow> real \<Rightarrow> py_error + BTCU" where
  "BTCU_init duration current_price hook_price buy_price anual_earning_rate =
     (if buy_price < hook_price then
        Inr \<lparr> u_current_price = current_price,
              u_duration = duration,
              u_hook_price = hook_price,
              u_buy_price = buy_price,
              u_earning_rate = anual_earning_rate / 360 * duration \<rparr>
      else Inl AssertionError)"

definition BTCU_get_max_annual_earning_rate :: "BTCU \<Rightarrow> py_error + real" where
  "BTCU_get_max_annual_earning_rate self =
     (case py_div (u_earning_rate self) (u_duration self) of
        Inl e \<Rightarrow> Inl e
      | Inr r \<Rightarrow> Inr (r * 360))"


subsection \<open>BTCDown\<close>

record BTCDown =
  down_duration :: real
  down_current_price :: real
  down_start_increase_price :: real
  down_end_increase_price :: real
  down_low_earning_rate :: real
  down_high_earning_rate :: real

definition BTCDown_init :: "real \<Rightarrow> real \<Rightarrow> real \<Rightarrow> real \<Rightarrow> real \<Rightarrow> real \<Rightarrow> BTCDown" where
  "BTCDown_init duration current_price start_increase_price end_increase_price
       low_anual_earning_rate high_anual_earning_rate =
     \<lparr> down_duration = duration,
       down_current_price = current_price,
       down_start_increase_price = start_increase_price,
       down_end_increase_price = end_increase_price,
       down_low_earning_rate = low_anual_earning_rate / 360 * duration,
       down_high_earning_rate = high_anual_earning_rate / 360 * duration \<rparr>"

text \<open>
  The last branch of \<^verbatim>\<open>BTCDown.end_earning_rate\<close> (source lines 57 to 63), by itself
  and in exact arithmetic; \<open>BTCDown_interpolate_f64\<close> below is the same branch in doubles.
\<close>

definition BTCDown_interpolate :: "BTCDown \<Rightarrow> real \<Rightarrow> py_error + real" where
  "BTCDown_interpolate self end_price =
     (let lower_price_diff = end_price - down_end_increase_price self;
          higher_price_diff = down_start_increase_price self - end_price;
          total_price_diff = down_start_increase_price self - down_end_increase_price self
      in case py_div lower_price_diff total_price_diff of
           Inl e \<Rightarrow> Inl e
         | Inr l_w \<Rightarrow>
             (case py_div higher_price_diff total_price_diff of
                Inl e \<Rightarrow> Inl e
              | Inr h_w \<Rightarrow>
                  Inr (down_high_earning_rate self * h_w + down_low_earning_rate self * l_w)))"

definition BTCDown_end_earning_rate :: "BTCDown \<Rightarrow> real \<Rightarrow> py_error + real" where
  "BTCDown_end_earning_rate self end_price =
     (if end_price \<ge> down_start_increase_price self then Inr (down_low_earning_rate self)
      else if end_price \<le> down_end_increase_price self then Inr (down_high_earning_rate self)
      else BTCDown_interpolate self end_price)"

subsection \<open>BTCUp\<close>

record BTCUp =
  up_duration :: real
  up_current_price :: real
  up_start_increase_price :: real
  up_end_increase_price :: real
  up_low_earning_rate :: real
  up_high_earning_rate :: real

definition BTCUp_init :: "real \<Rightarrow> real \<Rightarrow> real \<Rightarrow> real \<Rightarrow> real \<Rightarrow> real \<Rightarrow> BTCUp" where
  "BTCUp_init duration current_price start_increase_price end_increase_price
       low_anual_earning_rate high_anual_earning_rate =
     \<lparr> up_duration = duration,
       up_current_price = current_price,
       up_start_increase_price = start_increase_price,
       up_end_increase_price = end_increase_price,
       up_low_earning_rate = low_anual_earning_rate / 360 * duration,
       up_high_earning_rate = high_anual_earning_rate / 360 * duration \<rparr>"

text \<open>
  The last branch of \<^verbatim>\<open>BTCUp.end_earning_rate\<close> (source lines 85 to 91), by itself
  and in exact arithmetic; \<open>BTCUp_interpolate_f64\<close> below is the same branch in doubles.
\<close>

definition BTCUp_interpolate :: "BTCUp \<Rightarrow> real \<Rightarrow> py_error + real" where
  "BTCUp_interpolate self end_price =
     (let lower_price_diff = up_end_increase_price self - end_price;
          higher_price_diff = end_price - up_start_increase_price self;
          total_price_diff = up_end_increase_price self - up_start_increase_price self
      in case py_div lower_price_diff total_price_diff of
           Inl e \<Rightarrow> Inl e
         | Inr l_w \<Rightarrow>
             (case py_div higher_price_diff total_price_diff of
                Inl e \<Rightarrow> Inl e
              | Inr h_w \<Rightarrow>
                  Inr (up_high_earning_rate self * h_w + up_low_earning_rate self * l_w)))"

definition BTCUp_end_earning_rate :: "BTCUp \<Rightarrow> real \<Rightarrow> py_error + real" where
  "BTCUp_end_earning_rate self end_price =
     (if end_price \<le> up_start_increase_price self then Inr (up_low_earning_rate self)
      else if end_price \<ge> up_end_increase_price self then Inr (up_high_earning_rate self)
      else BTCUp_interpolate self end_price)"

subsection \<open>BTCwithStop\<close>

record BTCwithStop =
  stop_initial_price :: real
  stop_stop_price :: real

definition BTCwithStop_init :: "real \<Rightarrow> real \<Rightarrow> BTCwithStop" where
  "BTCwithStop_init current_price stop_price =
     \<lparr> stop_initial_price = current_price, stop_stop_price = stop_price \<rparr>"

text \<open>
  The method is an \<^verbatim>\<open>if\<close> with an \<^verbatim>\<open>elif\<close> and no \<^verbatim>\<open>else\<close>: where neither test
  holds it returns \<open>None\<close>, the third branch below.
\<close>

definition BTCwithStop_end_earning_rate :: "BTCwithStop \<Rightarrow> real \<Rightarrow> py_error + real option" where
  "BTCwithStop_end_earning_rate self end_price =
     (if end_price > stop_stop_price self then
        (case py_div (end_price - stop_initial_price self) (stop_initial_price self) of
           Inl e \<Rightarrow> Inl e
         | Inr r \<Rightarrow> Inr (Some r))
      else if end_price \<le> stop_stop_price self then
        (case py_div (stop_stop_price self - stop_initial_price self) (stop_initial_price self) of
           Inl e \<Rightarrow> Inl e
         | Inr r \<Rightarrow> Inr (Some r))
      else Inr None)"

subsection \<open>BTCGrid\<close>

record BTCGrid =
  grid_initial_price :: real
  grid_low_price :: real
  grid_high_price :: real
  grid_duration :: real
  grid_grid_earning_rate :: real

definition BTCGrid_init :: "real \<Rightarrow> real \<Rightarrow> real \<Rightarrow> real \<Rightarrow> real \<Rightarrow> BTCGrid" where
  "BTCGrid_init current_price low_price high_price grid_anual_earning_rate duration =
     \<lparr> grid_initial_price = current_price,
       grid_low_price = low_price,
       grid_high_price = high_price,
       grid_duration = duration,
       grid_grid_earning_rate = grid_anual_earning_rate / 360 * duration \<rparr>"

definition BTCGrid_end_grid_earning_rate :: "BTCGrid \<Rightarrow> real \<Rightarrow> real" where
  "BTCGrid_end_grid_earning_rate self hold_rate = grid_grid_earning_rate self * hold_rate"

definition BTCGrid_end_btc_earning_rate :: "BTCGrid \<Rightarrow> real \<Rightarrow> py_error + real" where
  "BTCGrid_end_btc_earning_rate self end_price =
     (if end_price > grid_high_price self then
        py_div (grid_high_price self - grid_initial_price self) (grid_initial_price self)
      else if end_price < grid_low_price self then
        py_div (grid_low_price self - grid_initial_price self) (grid_initial_price self)
      else py_div (end_price - grid_initial_price self) (grid_initial_price self))"

text \<open>
  \<^verbatim>\<open>end_earning_rate(self, end_price, non_stop=True, hold_rate=1.0, stop_mode='low')\<close>:
  the three optional arguments are explicit here. In the stopped branch the two
  assertions run in the source's order, before anything is computed; the
  \<^verbatim>\<open>if\<close>/\<^verbatim>\<open>elif\<close> on \<^verbatim>\<open>stop_mode\<close> has no \<^verbatim>\<open>else\<close>, so a third mode would leave
  \<^verbatim>\<open>btc_earning\<close> unassigned.
\<close>

definition BTCGrid_end_earning_rate ::
    "BTCGrid \<Rightarrow> real \<Rightarrow> bool \<Rightarrow> real \<Rightarrow> string \<Rightarrow> py_error + real" where
  "BTCGrid_end_earning_rate self end_price non_stop hold_rate stop_mode =
     (if non_stop then
        (let grid_earning = BTCGrid_end_grid_earning_rate self 1.0 in
         case BTCGrid_end_btc_earning_rate self end_price of
           Inl e \<Rightarrow> Inl e
         | Inr btc_earning \<Rightarrow> Inr (grid_earning + btc_earning * 0.5))
      else if \<not> (stop_mode = ''high'' \<or> stop_mode = ''low'') then Inl AssertionError
      else if \<not> hold_rate < 1.0 then Inl AssertionError
      else
        (let grid_earning = BTCGrid_end_grid_earning_rate self hold_rate in
         case (if stop_mode = ''high'' then
                 BTCGrid_end_btc_earning_rate self (grid_high_price self)
               else if stop_mode = ''low'' then
                 BTCGrid_end_btc_earning_rate self (grid_low_price self)
               else Inl UnboundLocalError) of
           Inl e \<Rightarrow> Inl e
         | Inr btc_earning \<Rightarrow> Inr (grid_earning + btc_earning * 0.5)))"

section \<open>The barrier notes in doubles\<close>

text \<open>
  \<open>f64 x\<close> is the double nearest to the real number \<open>x\<close>: the significand has 53
  bits, a tie goes to the even significand, and the exponent is not bounded. So
  \<open>f64 (a + b)\<close> is what the double addition of \<open>a\<close> and \<open>b\<close> returns as long as the
  result neither overflows nor underflows, and likewise for the other operations and
  for \<^verbatim>\<open>float(x)\<close> of an integer \<open>x\<close>. A number is \<open>f64_ordinary\<close> when it is zero or
  of magnitude between \<open>2 ^ 200\<close> and its inverse; on ordinary arguments no operation of
  a barrier note leaves the range where \<open>f64\<close> is the hardware's rounding.
\<close>

definition round_even :: "real \<Rightarrow> int" where
  "round_even y =
     (let f = \<lfloor>y\<rfloor>; r = y - of_int f in
      if r < 1 / 2 then f else if 1 / 2 < r then f + 1 else if even f then f else f + 1)"

definition f64_pos :: "real \<Rightarrow> real" where
  "f64_pos x = (let e = \<lfloor>log 2 x\<rfloor> - 52 in of_int (round_even (x / 2 powi e)) * 2 powi e)"

definition f64 :: "real \<Rightarrow> real" where
  "f64 x = (if x = 0 then 0 else if 0 < x then f64_pos x else - f64_pos (- x))"

definition f64_ordinary :: "real \<Rightarrow> bool" where
  "f64_ordinary x \<longleftrightarrow> x = 0 \<or> (1 / 2 ^ 200 \<le> \<bar>x\<bar> \<and> \<bar>x\<bar> \<le> 2 ^ 200)"

definition f64_div :: "real \<Rightarrow> real \<Rightarrow> py_error + real" where
  "f64_div a b = (if b = 0 then Inl ZeroDivisionError else Inr (f64 (a / b)))"

text \<open>
  The constructors and methods of \<^verbatim>\<open>BTCDown\<close> and \<^verbatim>\<open>BTCUp\<close> again, on the same
  records, one \<open>f64\<close> for each conversion and each arithmetic operation of the source,
  in the source's order: \<^verbatim>\<open>float(a) / 360. * self._duration\<close> rounds three times, each of
  the three differences and the two weights once, each product once and their sum once.
  Comparisons are exact. The terminal price is used as it is given (a double).
\<close>

definition BTCDown_init_f64 :: "real \<Rightarrow> real \<Rightarrow> real \<Rightarrow> real \<Rightarrow> real \<Rightarrow> real \<Rightarrow> BTCDown" where
  "BTCDown_init_f64 duration current_price start_increase_price end_increase_price
       low_anual_earning_rate high_anual_earning_rate =
     \<lparr> down_duration = f64 duration,
       down_current_price = f64 current_price,
       down_start_increase_price = f64 start_increase_price,
       down_end_increase_price = f64 end_increase_price,
       down_low_earning_rate = f64 (f64 (f64 low_anual_earning_rate / 360) * f64 duration),
       down_high_earning_rate = f64 (f64 (f64 high_anual_earning_rate / 360) * f64 duration) \<rparr>"

definition BTCDown_interpolate_f64 :: "BTCDown \<Rightarrow> real \<Rightarrow> py_error + real" where
  "BTCDown_interpolate_f64 self end_price =
     (let lower_price_diff = f64 (end_price - down_end_increase_price self);
          higher_price_diff = f64 (down_start_increase_price self - end_price);
          total_price_diff =
            f64 (down_start_increase_price self - down_end_increase_price self)
      in case f64_div lower_price_diff total_price_diff of
           Inl e \<Rightarrow> Inl e
         | Inr l_w \<Rightarrow>
             (case f64_div higher_price_diff total_price_diff of
                Inl e \<Rightarrow> Inl e
              | Inr h_w \<Rightarrow>
                  Inr (f64 (f64 (down_high_earning_rate self * h_w)
                            + f64 (down_low_earning_rate self * l_w)))))"

definition BTCDown_end_earning_rate_f64 :: "BTCDown \<Rightarrow> real \<Rightarrow> py_error + real" where
  "BTCDown_end_earning_rate_f64 self end_price =
     (if end_price \<ge> down_start_increase_price self then Inr (down_low_earning_rate self)
      else if end_price \<le> down_end_increase_price self then Inr (down_high_earning_rate self)
      else BTCDown_interpolate_f64 self end_price)"

definition BTCUp_init_f64 :: "real \<Rightarrow> real \<Rightarrow> real \<Rightarrow> real \<Rightarrow> real \<Rightarrow> real \<Rightarrow> BTCUp" where
  "BTCUp_init_f64 duration current_price start_increase_price end_increase_price
       low_anual_earning_rate high_anual_earning_rate =
     \<lparr> up_duration = f64 duration,
       up_current_price = f64 current_price,
       up_start_increase_price = f64 start_increase_price,
       up_end_increase_price = f64 end_increase_price,
       up_low_earning_rate = f64 (f64 (f64 low_anual_earning_rate / 360) * f64 duration),
       up_high_earning_rate = f64 (f64 (f64 high_anual_earning_rate / 360) * f64 duration) \<rparr>"

definition BTCUp_interpolate_f64 :: "BTCUp \<Rightarrow> real \<Rightarrow> py_error + real" where
  "BTCUp_interpolate_f64 self end_price =
     (let lower_price_diff = f64 (up_end_increase_price self - end_price);
          higher_price_diff = f64 (end_price - up_start_increase_price self);
          total_price_diff = f64 (up_end_increase_price self - up_start_increase_price self)
      in case f64_div lower_price_diff total_price_diff of
           Inl e \<Rightarrow> Inl e
         | Inr l_w \<Rightarrow>
             (case f64_div higher_price_diff total_price_diff of
                Inl e \<Rightarrow> Inl e
              | Inr h_w \<Rightarrow>
                  Inr (f64 (f64 (up_high_earning_rate self * h_w)
                            + f64 (up_low_earning_rate self * l_w)))))"

definition BTCUp_end_earning_rate_f64 :: "BTCUp \<Rightarrow> real \<Rightarrow> py_error + real" where
  "BTCUp_end_earning_rate_f64 self end_price =
     (if end_price \<le> up_start_increase_price self then Inr (up_low_earning_rate self)
      else if end_price \<ge> up_end_increase_price self then Inr (up_high_earning_rate self)
      else BTCUp_interpolate_f64 self end_price)"

text \<open>
  A result \<open>r\<close> lies between two rates \<open>L\<close> and \<open>H\<close> up to rounding when it leaves the
  interval by at most the share \<open>1 / 2 ^ 50\<close> of the larger of the two magnitudes, a
  few units in the last place of a double of that size.
\<close>

definition within_rounding :: "real \<Rightarrow> real \<Rightarrow> real \<Rightarrow> bool" where
  "within_rounding L H r \<longleftrightarrow>
     min L H - max \<bar>L\<bar> \<bar>H\<bar> / 2 ^ 50 \<le> r \<and> r \<le> max L H + max \<bar>L\<bar> \<bar>H\<bar> / 2 ^ 50"

section \<open>Arithmetic of the interpolation\<close>

text \<open>
  Inside its corridor a barrier note weighs the two period rates by the distances of the
  terminal price to the two bounds. With the price clamped to the corridor the same
  expression gives the plateaus too, so the whole method is one formula: the low rate
  plus the spread times the clamped fraction of the corridor that the price has crossed.
\<close>

lemma interpolate_as_offset:
  fixes L H s e p :: real
  assumes "s \<noteq> e"
  shows "H * ((p - s) / (e - s)) + L * ((e - p) / (e - s)) =
         L + (H - L) * ((p - s) / (e - s))"
proof -
  define w where "w = (p - s) / (e - s)"
  have one: "(e - s) / (e - s) = 1" using assms by simp
  have "(e - p) / (e - s) = ((e - s) - (p - s)) / (e - s)" by simp
  also have "\<dots> = (e - s) / (e - s) - (p - s) / (e - s)"
    by (rule diff_divide_distrib)
  finally have v: "(e - p) / (e - s) = 1 - w" unfolding one w_def .
  have "H * w + L * (1 - w) = L + (H - L) * w" by (simp add: algebra_simps)
  then show ?thesis unfolding v w_def .
qed

lemma clamp_fraction_bounds:
  fixes s e p :: real
  assumes "s < e"
  shows "0 \<le> (max s (min e p) - s) / (e - s)" "(max s (min e p) - s) / (e - s) \<le> 1"
  using assms by (simp_all add: max_def min_def)

lemma clamp_fraction_mono:
  fixes s e p1 p2 :: real
  assumes "s < e" "p1 \<le> p2"
  shows "(max s (min e p1) - s) / (e - s) \<le> (max s (min e p2) - s) / (e - s)"
  using assms by (simp add: divide_right_mono max_def min_def)

lemma offset_mono:
  fixes L H w1 w2 :: real
  assumes "L \<le> H" "w1 \<le> w2"
  shows "L + (H - L) * w1 \<le> L + (H - L) * w2"
  using assms by (simp add: mult_left_mono)

lemma offset_antimono:
  fixes L H w1 w2 :: real
  assumes "L \<le> H" "w1 \<le> w2"
  shows "H + (L - H) * w2 \<le> H + (L - H) * w1"
  using assms by (simp add: mult_left_mono_neg)

lemma convex_between:
  fixes L H t :: real
  assumes "0 \<le> t" "t \<le> 1"
  shows "min L H \<le> L + (H - L) * t" "L + (H - L) * t \<le> max L H"
proof -
  have eq: "L + (H - L) * t = (1 - t) * L + t * H" by (simp add: algebra_simps)
  have a: "0 \<le> 1 - t" using assms by simp
  have "(1 - t) * min L H \<le> (1 - t) * L" "t * min L H \<le> t * H"
    using assms a by (simp_all add: mult_left_mono)
  then have "(1 - t) * min L H + t * min L H \<le> (1 - t) * L + t * H" by linarith
  then show "min L H \<le> L + (H - L) * t" unfolding eq by (simp add: algebra_simps)
  have "(1 - t) * L \<le> (1 - t) * max L H" "t * H \<le> t * max L H"
    using assms a by (simp_all add: mult_left_mono)
  then have "(1 - t) * L + t * H \<le> (1 - t) * max L H + t * max L H" by linarith
  then show "L + (H - L) * t \<le> max L H" unfolding eq by (simp add: algebra_simps)
qed

section \<open>The barrier notes in closed form\<close>

text \<open>
  The lemmas of this section speak about a note with arbitrary stored rates \<open>L\<close> and
  \<open>H\<close>; the constructors only fix \<open>L = low_anual_earning_rate / 360 * duration\<close> and
  \<open>H = high_anual_earning_rate / 360 * duration\<close>.
\<close>

lemma BTCUp_corridor:
  assumes "s < e"
  shows "BTCUp_end_earning_rate
           \<lparr> up_duration = d, up_current_price = c, up_start_increase_price = s,
             up_end_increase_price = e, up_low_earning_rate = L, up_high_earning_rate = H \<rparr> p =
         Inr (L + (H - L) * ((max s (min e p) - s) / (e - s)))"
proof -
  consider "p \<le> s" | "e \<le> p" "s < p" | "s < p" "p < e" by linarith
  then show ?thesis
  proof cases
    case 1
    then show ?thesis using assms
      by (simp add: BTCUp_end_earning_rate_def max_def min_def)
  next
    case 2
    then show ?thesis using assms
      by (simp add: BTCUp_end_earning_rate_def max_def min_def)
  next
    case 3
    then have m: "max s (min e p) = p" by (simp add: max_def min_def)
    have ne: "s \<noteq> e" using assms by simp
    have "BTCUp_end_earning_rate
           \<lparr> up_duration = d, up_current_price = c, up_start_increase_price = s,
             up_end_increase_price = e, up_low_earning_rate = L, up_high_earning_rate = H \<rparr> p =
        Inr (H * ((p - s) / (e - s)) + L * ((e - p) / (e - s)))"
      using 3 assms
      by (simp add: BTCUp_end_earning_rate_def BTCUp_interpolate_def py_div_def Let_def)
    then show ?thesis
      by (simp only: m interpolate_as_offset [OF ne])
  qed
qed

lemma BTCUp_no_corridor:
  assumes "e \<le> s"
  shows "BTCUp_end_earning_rate
           \<lparr> up_duration = d, up_current_price = c, up_start_increase_price = s,
             up_end_increase_price = e, up_low_earning_rate = L, up_high_earning_rate = H \<rparr> p =
         Inr (if p \<le> s then L else H)"
  using assms by (simp add: BTCUp_end_earning_rate_def)

lemma BTCDown_mirror:
  assumes "b < a"
  shows "BTCDown_end_earning_rate
           \<lparr> down_duration = d, down_current_price = c, down_start_increase_price = a,
             down_end_increase_price = b, down_low_earning_rate = L,
             down_high_earning_rate = H \<rparr> p =
         BTCUp_end_earning_rate
           \<lparr> up_duration = d, up_current_price = c, up_start_increase_price = b,
             up_end_increase_price = a, up_low_earning_rate = H, up_high_earning_rate = L \<rparr> p"
proof -
  consider "a \<le> p" | "p \<le> b" | "b < p" "p < a" by linarith
  then show ?thesis
  proof cases
    case 1
    then show ?thesis using assms
      by (simp add: BTCDown_end_earning_rate_def BTCUp_end_earning_rate_def)
  next
    case 2
    then show ?thesis using assms
      by (simp add: BTCDown_end_earning_rate_def BTCUp_end_earning_rate_def)
  next
    case 3
    then show ?thesis using assms
      by (simp add: BTCDown_end_earning_rate_def BTCDown_interpolate_def
          BTCUp_end_earning_rate_def BTCUp_interpolate_def py_div_def Let_def)
  qed
qed

lemma BTCDown_corridor:
  assumes "e < s"
  shows "BTCDown_end_earning_rate
           \<lparr> down_duration = d, down_current_price = c, down_start_increase_price = s,
             down_end_increase_price = e, down_low_earning_rate = L,
             down_high_earning_rate = H \<rparr> p =
         Inr (H + (L - H) * ((max e (min s p) - e) / (s - e)))"
  by (simp only: BTCDown_mirror [OF assms] BTCUp_corridor [OF assms])

lemma BTCDown_no_corridor:
  assumes "s \<le> e"
  shows "BTCDown_end_earning_rate
           \<lparr> down_duration = d, down_current_price = c, down_start_increase_price = s,
             down_end_increase_price = e, down_low_earning_rate = L,
             down_high_earning_rate = H \<rparr> p =
         Inr (if s \<le> p then L else H)"
  using assms by (simp add: BTCDown_end_earning_rate_def)

lemma BTCUp_continuous:
  assumes "s < e"
  shows "\<exists>f. continuous_on UNIV f \<and>
     (\<forall>p. BTCUp_end_earning_rate
             \<lparr> up_duration = d, up_current_price = c, up_start_increase_price = s,
               up_end_increase_price = e, up_low_earning_rate = L, up_high_earning_rate = H \<rparr> p
           = Inr (f p))"
proof -
  let ?f = "\<lambda>p. L + (H - L) * ((max s (min e p) - s) / (e - s))"
  have "continuous_on UNIV ?f" using assms by (intro continuous_intros) simp
  then show ?thesis using BTCUp_corridor [OF assms] by blast
qed

lemma BTCDown_continuous:
  assumes "e < s"
  shows "\<exists>f. continuous_on UNIV f \<and>
     (\<forall>p. BTCDown_end_earning_rate
             \<lparr> down_duration = d, down_current_price = c, down_start_increase_price = s,
               down_end_increase_price = e, down_low_earning_rate = L,
               down_high_earning_rate = H \<rparr> p
           = Inr (f p))"
proof -
  let ?f = "\<lambda>p. H + (L - H) * ((max e (min s p) - e) / (s - e))"
  have "continuous_on UNIV ?f" using assms by (intro continuous_intros) simp
  then show ?thesis using BTCDown_corridor [OF assms] by blast
qed

lemma BTCUp_interpolate_ends:
  assumes "s < e"
  shows "BTCUp_interpolate
           \<lparr> up_duration = d, up_current_price = c, up_start_increase_price = s,
             up_end_increase_price = e, up_low_earning_rate = L, up_high_earning_rate = H \<rparr> s
         = Inr L"
    and "BTCUp_interpolate
           \<lparr> up_duration = d, up_current_price = c, up_start_increase_price = s,
             up_end_increase_price = e, up_low_earning_rate = L, up_high_earning_rate = H \<rparr> e
         = Inr H"
  using assms by (simp_all add: BTCUp_interpolate_def py_div_def)

lemma BTCDown_interpolate_ends:
  assumes "e < s"
  shows "BTCDown_interpolate
           \<lparr> down_duration = d, down_current_price = c, down_start_increase_price = s,
             down_end_increase_price = e, down_low_earning_rate = L,
             down_high_earning_rate = H \<rparr> s
         = Inr L"
    and "BTCDown_interpolate
           \<lparr> down_duration = d, down_current_price = c, down_start_increase_price = s,
             down_end_increase_price = e, down_low_earning_rate = L,
             down_high_earning_rate = H \<rparr> e
         = Inr H"
  using assms by (simp_all add: BTCDown_interpolate_def py_div_def)


section \<open>Rounding to a double\<close>

text \<open>
  The integer nearest to a real number is within one half of it, is the number itself
  for an integer, and grows with the number.
\<close>

lemma round_even_cases: "round_even y = \<lfloor>y\<rfloor> \<or> round_even y = \<lfloor>y\<rfloor> + 1"
  by (simp add: round_even_def Let_def)

lemma round_even_error: "\<bar>of_int (round_even y) - y\<bar> \<le> 1 / 2"
proof -
  have "of_int \<lfloor>y\<rfloor> \<le> y" "y < of_int \<lfloor>y\<rfloor> + 1" by linarith+
  then show ?thesis by (auto simp: round_even_def Let_def)
qed

lemma round_even_of_int [simp]: "round_even (of_int n) = n"
  by (simp add: round_even_def)

lemma round_even_mono:
  assumes "y \<le> z"
  shows "round_even y \<le> round_even z"
proof (cases "\<lfloor>y\<rfloor> = \<lfloor>z\<rfloor>")
  case True
  then show ?thesis using assms by (auto simp: round_even_def Let_def)
next
  case False
  then have "\<lfloor>y\<rfloor> + 1 \<le> \<lfloor>z\<rfloor>" using floor_mono [OF assms] by linarith
  moreover have "round_even y \<le> \<lfloor>y\<rfloor> + 1" using round_even_cases [of y] by linarith
  moreover have "\<lfloor>z\<rfloor> \<le> round_even z" using round_even_cases [of z] by linarith
  ultimately show ?thesis by linarith
qed

text \<open>
  A positive \<open>x\<close> lies in the binade of \<open>k = \<lfloor>log 2 x\<rfloor>\<close>, between \<open>2 powi k\<close> and
  \<open>2 powi (k + 1)\<close>; scaled by \<open>2 powi (k - 52)\<close> it lies between \<open>2 ^ 52\<close> and
  \<open>2 ^ 53\<close>, where the integers are the doubles of that binade.
\<close>

lemma two_powr_of_int: "(2::real) powr of_int j = 2 powi j"
  by (simp add: powr_real_of_int')

lemma floor_log2_iff:
  fixes x :: real
  assumes "0 < x"
  shows "\<lfloor>log 2 x\<rfloor> = k \<longleftrightarrow> 2 powi k \<le> x \<and> x < 2 powi (k + 1)"
proof -
  have "\<lfloor>log 2 x\<rfloor> = k \<longleftrightarrow> 2 powr (of_int k) \<le> x \<and> x < 2 powr (of_int (k + 1))"
    using floor_log_eq_powr_iff [of x 2 k] assms by simp
  then show ?thesis unfolding two_powr_of_int .
qed

lemma binade_exponent:
  fixes x :: real
  assumes "0 < x"
  shows "2 powi \<lfloor>log 2 x\<rfloor> \<le> x" "x < 2 powi (\<lfloor>log 2 x\<rfloor> + 1)"
  using floor_log2_iff [OF assms, of "\<lfloor>log 2 x\<rfloor>"] by simp_all

lemma f64_pos_eval:
  assumes "0 < x" "2 powi k \<le> x" "x < 2 powi (k + 1)"
  shows "f64_pos x = of_int (round_even (x / 2 powi (k - 52))) * 2 powi (k - 52)"
proof -
  have "\<lfloor>log 2 x\<rfloor> = k" using floor_log2_iff [OF assms(1), of k] assms(2,3) by simp
  then show ?thesis by (simp add: f64_pos_def Let_def)
qed

lemma f64_pos_scaled:
  fixes x :: real
  assumes "0 < x"
  defines "k \<equiv> \<lfloor>log 2 x\<rfloor>"
  shows "2 ^ 52 \<le> x / 2 powi (k - 52)" "x / 2 powi (k - 52) < 2 ^ 53"
proof -
  have s: "(2::real) powi (k - 52) = 2 powi k / 2 ^ 52"
    by (simp add: power_int_diff)
  have s1: "(2::real) powi (k + 1) = 2 powi k * 2"
    by (simp add: power_int_add)
  have p: "(0::real) < 2 powi k" by simp
  from binade_exponent [OF assms(1)] have b: "2 powi k \<le> x" "x < 2 powi k * 2"
    unfolding k_def [symmetric] s1 by simp_all
  show "2 ^ 52 \<le> x / 2 powi (k - 52)"
    unfolding s using b(1) p by (simp add: field_simps)
  show "x / 2 powi (k - 52) < 2 ^ 53"
    unfolding s using b(2) p by (simp add: field_simps)
qed

lemma f64_pos_error:
  fixes x :: real
  assumes "0 < x"
  shows "\<bar>f64_pos x - x\<bar> \<le> x / 2 ^ 53"
proof -
  define k where "k = \<lfloor>log 2 x\<rfloor>"
  define s :: real where "s = 2 powi (k - 52)"
  define y where "y = x / s"
  have sp: "0 < s" by (simp add: s_def)
  have x: "y * s = x" using sp by (simp add: y_def)
  have f: "f64_pos x = of_int (round_even y) * s"
    by (simp add: f64_pos_def Let_def k_def s_def y_def)
  have "(of_int (round_even y) - y) * s = of_int (round_even y) * s - y * s"
    by (rule left_diff_distrib)
  also have "\<dots> = f64_pos x - x" unfolding f x ..
  finally have "f64_pos x - x = (of_int (round_even y) - y) * s" by simp
  then have "\<bar>f64_pos x - x\<bar> = \<bar>of_int (round_even y) - y\<bar> * s"
    using sp by (simp add: abs_mult)
  also have "\<dots> \<le> 1 / 2 * s"
    using round_even_error [of y] sp by (intro mult_right_mono) simp_all
  also have "\<dots> \<le> y / 2 ^ 53 * s"
  proof -
    have "2 ^ 52 \<le> y" using f64_pos_scaled(1) [OF assms] by (simp add: y_def s_def k_def)
    then have "(1::real) / 2 \<le> y / 2 ^ 53" by simp
    then show ?thesis using sp by (intro mult_right_mono) simp_all
  qed
  also have "\<dots> = x / 2 ^ 53" unfolding x [symmetric] by simp
  finally show ?thesis .
qed

lemma f64_pos_binade:
  fixes x :: real
  assumes "0 < x" "2 powi k \<le> x" "x < 2 powi (k + 1)"
  shows "2 powi k \<le> f64_pos x" "f64_pos x \<le> 2 powi (k + 1)"
proof -
  define s :: real where "s = 2 powi (k - 52)"
  define y where "y = x / s"
  have sp: "0 < s" by (simp add: s_def)
  have kk: "\<lfloor>log 2 x\<rfloor> = k" using floor_log2_iff [OF assms(1), of k] assms(2,3) by simp
  have f: "f64_pos x = of_int (round_even y) * s"
    using f64_pos_eval [OF assms] by (simp add: s_def y_def)
  have y: "2 ^ 52 \<le> y" "y < 2 ^ 53"
    using f64_pos_scaled [OF assms(1)] unfolding kk by (simp_all add: y_def s_def)
  have "round_even (of_int (2 ^ 52)) \<le> round_even y"
    using y(1) by (intro round_even_mono) simp
  then have lo: "(2::int) ^ 52 \<le> round_even y" by (simp only: round_even_of_int)
  have "round_even y \<le> round_even (of_int (2 ^ 53))"
    using y(2) by (intro round_even_mono) simp
  then have hi: "round_even y \<le> (2::int) ^ 53" by (simp only: round_even_of_int)
  have e1: "(2::real) powi k = 2 ^ 52 * s" by (simp add: s_def power_int_diff)
  have e2: "(2::real) powi (k + 1) = 2 ^ 53 * s" by (simp add: s_def power_int_diff power_int_add)
  have "(2::real) ^ 52 \<le> of_int (round_even y)" using lo by (metis of_int_le_iff of_int_numeral of_int_power)
  then show "2 powi k \<le> f64_pos x" unfolding f e1 using sp by (intro mult_right_mono) simp_all
  have "of_int (round_even y) \<le> (2::real) ^ 53" using hi by (metis of_int_le_iff of_int_numeral of_int_power)
  then show "f64_pos x \<le> 2 powi (k + 1)" unfolding f e2 using sp by (intro mult_right_mono) simp_all
qed

lemma f64_pos_positive:
  fixes x :: real
  assumes "0 < x"
  shows "0 < f64_pos x"
proof -
  have "(0::real) < 2 powi \<lfloor>log 2 x\<rfloor>" by simp
  also have "\<dots> \<le> f64_pos x"
    using f64_pos_binade(1) [OF assms binade_exponent [OF assms]] .
  finally show ?thesis .
qed

lemma f64_pos_mono:
  fixes x y :: real
  assumes "0 < x" "x \<le> y"
  shows "f64_pos x \<le> f64_pos y"
proof -
  define kx where "kx = \<lfloor>log 2 x\<rfloor>"
  define ky where "ky = \<lfloor>log 2 y\<rfloor>"
  have yp: "0 < y" using assms by simp
  have le: "kx \<le> ky"
    unfolding kx_def ky_def using assms by (intro floor_mono) simp
  show ?thesis
  proof (cases "kx = ky")
    case True
    define s :: real where "s = 2 powi (kx - 52)"
    have sp: "0 < s" by (simp add: s_def)
    have fx: "f64_pos x = of_int (round_even (x / s)) * s"
      by (simp add: f64_pos_def Let_def kx_def s_def)
    have fy: "f64_pos y = of_int (round_even (y / s)) * s"
      using True by (simp add: f64_pos_def Let_def kx_def ky_def s_def)
    have "x / s \<le> y / s" using assms(2) sp by (simp add: divide_right_mono)
    then have "round_even (x / s) \<le> round_even (y / s)" by (rule round_even_mono)
    then show ?thesis unfolding fx fy using sp by (intro mult_right_mono) simp_all
  next
    case False
    then have lt: "kx + 1 \<le> ky" using le by simp
    have "f64_pos x \<le> 2 powi (kx + 1)"
      using f64_pos_binade(2) [OF assms(1) binade_exponent [OF assms(1)]] by (simp add: kx_def)
    also have "\<dots> \<le> 2 powi ky" using lt by (intro power_int_increasing) simp_all
    also have "\<dots> \<le> f64_pos y"
      using f64_pos_binade(1) [OF yp binade_exponent [OF yp]] by (simp add: ky_def)
    finally show ?thesis .
  qed
qed

lemma f64_pos_idem:
  fixes x :: real
  assumes "0 < x"
  shows "f64_pos (f64_pos x) = f64_pos x"
proof -
  define k where "k = \<lfloor>log 2 x\<rfloor>"
  define s :: real where "s = 2 powi (k - 52)"
  define n where "n = round_even (x / s)"
  have sp: "0 < s" by (simp add: s_def)
  have f: "f64_pos x = of_int n * s"
    by (simp add: f64_pos_def Let_def k_def s_def n_def)
  have e1: "(2::real) powi k = 2 ^ 52 * s" by (simp add: s_def power_int_diff)
  have e2: "(2::real) powi (k + 1) = 2 ^ 53 * s"
    by (simp add: s_def power_int_diff power_int_add)
  have e3: "(2::real) powi (k + 1 + 1) = 2 ^ 54 * s"
    by (simp add: s_def power_int_diff power_int_add)
  have e4: "(2::real) powi (k + 1 - 52) = 2 * s"
    by (simp add: s_def power_int_diff power_int_add)
  have b: "2 powi k \<le> f64_pos x" "f64_pos x \<le> 2 powi (k + 1)"
    using f64_pos_binade [OF assms binade_exponent [OF assms]] by (simp_all add: k_def)
  have pos: "0 < f64_pos x" by (rule f64_pos_positive [OF assms])
  show ?thesis
  proof (cases "f64_pos x < 2 powi (k + 1)")
    case True
    have "f64_pos (f64_pos x) = of_int (round_even (f64_pos x / s)) * s"
      using f64_pos_eval [OF pos b(1) True] by (simp add: s_def)
    also have "f64_pos x / s = of_int n" using sp by (simp add: f)
    finally show ?thesis by (simp add: f)
  next
    case False
    then have eq: "f64_pos x = 2 ^ 53 * s" using b(2) e2 by simp
    have lo: "2 powi (k + 1) \<le> f64_pos x" unfolding eq e2 by simp
    have hi: "f64_pos x < 2 powi (k + 1 + 1)" unfolding eq e3 using sp by simp
    have q: "f64_pos x / (2 * s) = of_int (2 ^ 52)" using sp by (simp add: eq)
    have "f64_pos (f64_pos x) = of_int (round_even (f64_pos x / (2 * s))) * (2 * s)"
      using f64_pos_eval [OF pos lo hi] unfolding e4 .
    also have "\<dots> = of_int (2 ^ 52) * (2 * s)" by (simp only: q round_even_of_int)
    also have "\<dots> = f64_pos x" by (simp add: eq)
    finally show ?thesis .
  qed
qed

text \<open>
  What the proofs below use of \<open>f64\<close>: it keeps zero and the sign, is monotone and
  idempotent, and its relative error is at most \<open>1 / 2 ^ 53\<close>. \<open>f64_eval\<close> computes it
  at a given number once the binade is named.
\<close>

lemma f64_zero [simp]: "f64 0 = 0"
  by (simp add: f64_def)

lemma f64_minus: "f64 (- x) = - f64 x"
  by (simp add: f64_def)

lemma f64_error: "\<bar>f64 x - x\<bar> \<le> \<bar>x\<bar> / 2 ^ 53"
proof -
  consider "x = 0" | "0 < x" | "x < 0" by linarith
  then show ?thesis
  proof cases
    case 1
    then show ?thesis by simp
  next
    case 2
    then show ?thesis using f64_pos_error [OF 2] by (simp add: f64_def)
  next
    case 3
    then have "0 < - x" by simp
    from f64_pos_error [OF this] have "\<bar>f64_pos (- x) + x\<bar> \<le> - x / 2 ^ 53" by simp
    moreover have "\<bar>- f64_pos (- x) - x\<bar> = \<bar>f64_pos (- x) + x\<bar>"
      by (metis abs_minus_commute diff_minus_eq_add minus_diff_eq add.commute)
    ultimately show ?thesis using 3 by (simp add: f64_def)
  qed
qed

lemma f64_pos_iff [simp]: "0 < f64 x \<longleftrightarrow> 0 < x"
proof -
  consider "x = 0" | "0 < x" | "x < 0" by linarith
  then show ?thesis
  proof cases
    case 1
    then show ?thesis by simp
  next
    case 2
    then show ?thesis using f64_pos_positive [OF 2] by (simp add: f64_def)
  next
    case 3
    then have "0 < - x" by simp
    from f64_pos_positive [OF this] show ?thesis using 3 by (simp add: f64_def)
  qed
qed

lemma f64_eq_0_iff [simp]: "f64 x = 0 \<longleftrightarrow> x = 0"
proof -
  have "0 < f64 x" if "0 < x" using that by simp
  moreover have "f64 x < 0" if "x < 0"
  proof -
    have "0 < f64 (- x)" using that by simp
    then show ?thesis by (simp add: f64_minus)
  qed
  ultimately show ?thesis by (cases "x = 0"; cases "0 < x") fastforce+
qed

lemma f64_mono:
  assumes "x \<le> y"
  shows "f64 x \<le> f64 y"
proof -
  consider "0 < x" | "x \<le> 0" "0 \<le> y" | "y < 0" by linarith
  then show ?thesis
  proof cases
    case 1
    then have "0 < y" using assms by simp
    then show ?thesis using 1 f64_pos_mono [OF 1 assms] by (simp add: f64_def)
  next
    case 2
    have "f64 x \<le> 0" using 2(1) f64_pos_iff [of x] by linarith
    moreover have "0 \<le> f64 y"
    proof (cases "y = 0")
      case True then show ?thesis by simp
    next
      case False
      then have "0 < y" using 2(2) by simp
      then have "0 < f64 y" by (simp only: f64_pos_iff)
      then show ?thesis by (rule less_imp_le)
    qed
    ultimately show ?thesis by simp
  next
    case 3
    then have a: "0 < - y" "- y \<le> - x" using assms by simp_all
    from f64_pos_mono [OF a] show ?thesis using 3 assms by (simp add: f64_def)
  qed
qed

lemma f64_idem [simp]: "f64 (f64 x) = f64 x"
proof -
  consider "x = 0" | "0 < x" | "x < 0" by linarith
  then show ?thesis
  proof cases
    case 1
    then show ?thesis by simp
  next
    case 2
    then show ?thesis
      using f64_pos_idem [OF 2] f64_pos_positive [OF 2] by (simp add: f64_def)
  next
    case 3
    then have n: "0 < - x" by simp
    show ?thesis
      using f64_pos_idem [OF n] f64_pos_positive [OF n] 3 by (simp add: f64_def)
  qed
qed

lemma f64_eval:
  assumes "2 powi k \<le> x" "x < 2 powi (k + 1)"
  shows "f64 x = of_int (round_even (x / 2 powi (k - 52))) * 2 powi (k - 52)"
proof -
  have "(0::real) < 2 powi k" by simp
  then have p: "0 < x" using assms(1) by linarith
  show ?thesis using f64_pos_eval [OF p assms] p by (simp add: f64_def)
qed

subsection \<open>The error of the interpolation\<close>

text \<open>
  Each rounding multiplies the error bound by \<open>1 + 1 / 2 ^ 53\<close>: a quotient of two
  rounded differences is within \<open>3 / 2 ^ 53\<close> of the exact quotient, a rounded weight
  within \<open>9 / 2 ^ 54\<close>, a rounded product of a rate and a weight within \<open>6 / 2 ^ 53\<close>,
  and the rounded sum of the two products within \<open>1 / 2 ^ 50\<close> of the exact weighted
  sum, all relative to the larger rate.
\<close>

lemma f64_abs_le: "\<bar>f64 x\<bar> \<le> \<bar>x\<bar> + \<bar>x\<bar> / 2 ^ 53"
  using f64_error [of x] by linarith

lemma f64_near:
  assumes "\<bar>x' - x\<bar> \<le> a * \<bar>x\<bar>" and "a + (1 + a) / 2 ^ 53 \<le> b"
  shows "\<bar>f64 x' - x\<bar> \<le> b * \<bar>x\<bar>"
proof -
  have "\<bar>x'\<bar> \<le> \<bar>x\<bar> + a * \<bar>x\<bar>" using assms(1) by linarith
  also have "\<dots> = (1 + a) * \<bar>x\<bar>" by (simp add: algebra_simps)
  finally have x': "\<bar>x'\<bar> \<le> (1 + a) * \<bar>x\<bar>" .
  have "\<bar>f64 x' - x'\<bar> \<le> \<bar>x'\<bar> / 2 ^ 53" by (rule f64_error)
  also have "\<dots> \<le> (1 + a) * \<bar>x\<bar> / 2 ^ 53"
    using x' by (simp add: divide_right_mono)
  finally have "\<bar>f64 x' - x\<bar> \<le> (1 + a) * \<bar>x\<bar> / 2 ^ 53 + a * \<bar>x\<bar>"
    using assms(1) by linarith
  also have "\<dots> = (a + (1 + a) / 2 ^ 53) * \<bar>x\<bar>" by (simp add: algebra_simps)
  also have "\<dots> \<le> b * \<bar>x\<bar>" using assms(2) by (intro mult_right_mono) simp_all
  finally show ?thesis .
qed

lemma f64_quotient_near:
  assumes "T \<noteq> 0"
  shows "\<bar>f64 A / f64 T - A / T\<bar> \<le> 3 / 2 ^ 53 * \<bar>A / T\<bar>"
proof -
  define u :: real where "u = 1 / 2 ^ 53"
  define a' where "a' = f64 A"
  define t' where "t' = f64 T"
  have u: "0 < u" "u < 1 / 4" by (simp_all add: u_def)
  have ea: "\<bar>a' - A\<bar> \<le> u * \<bar>A\<bar>" using f64_error [of A] by (simp add: a'_def u_def)
  have et: "\<bar>t' - T\<bar> \<le> u * \<bar>T\<bar>" using f64_error [of T] by (simp add: t'_def u_def)
  have Tp: "0 < \<bar>T\<bar>" using assms by simp
  have t'n: "t' \<noteq> 0" using assms by (simp add: t'_def)
  have "\<bar>T\<bar> - u * \<bar>T\<bar> \<le> \<bar>t'\<bar>" using et by linarith
  moreover have "\<bar>T\<bar> - u * \<bar>T\<bar> = (1 - u) * \<bar>T\<bar>" by (simp add: algebra_simps)
  ultimately have lower: "(1 - u) * \<bar>T\<bar> \<le> \<bar>t'\<bar>" by simp
  have lowp: "0 < (1 - u) * \<bar>T\<bar>" using u Tp by simp
  have "a' / t' - A / T = ((a' - A) * T - A * (t' - T)) / (t' * T)"
    using assms t'n by (simp add: field_simps)
  then have "\<bar>a' / t' - A / T\<bar> = \<bar>(a' - A) * T - A * (t' - T)\<bar> / (\<bar>t'\<bar> * \<bar>T\<bar>)"
    by (simp add: abs_mult)
  also have "\<dots> \<le> (2 * u * \<bar>A\<bar> * \<bar>T\<bar>) / (\<bar>t'\<bar> * \<bar>T\<bar>)"
  proof (intro divide_right_mono)
    have "\<bar>(a' - A) * T - A * (t' - T)\<bar> \<le> \<bar>(a' - A) * T\<bar> + \<bar>A * (t' - T)\<bar>" by simp
    also have "\<dots> = \<bar>a' - A\<bar> * \<bar>T\<bar> + \<bar>A\<bar> * \<bar>t' - T\<bar>" by (simp add: abs_mult)
    also have "\<dots> \<le> u * \<bar>A\<bar> * \<bar>T\<bar> + \<bar>A\<bar> * (u * \<bar>T\<bar>)"
      using ea et by (intro add_mono mult_right_mono mult_left_mono) simp_all
    finally show "\<bar>(a' - A) * T - A * (t' - T)\<bar> \<le> 2 * u * \<bar>A\<bar> * \<bar>T\<bar>" by simp
    show "0 \<le> \<bar>t'\<bar> * \<bar>T\<bar>" by simp
  qed
  also have "\<dots> = 2 * u * \<bar>A\<bar> / \<bar>t'\<bar>" using assms by simp
  also have "\<dots> \<le> 2 * u * \<bar>A\<bar> / ((1 - u) * \<bar>T\<bar>)"
    using lower lowp u by (intro frac_le) simp_all
  also have "\<dots> = 2 * u / (1 - u) * \<bar>A / T\<bar>" by simp
  also have "\<dots> \<le> 3 * u * \<bar>A / T\<bar>"
  proof (intro mult_right_mono)
    show "2 * u / (1 - u) \<le> 3 * u" by (simp add: u_def field_simps)
  qed simp
  finally show ?thesis by (simp add: a'_def t'_def u_def)
qed

lemma f64_weight_near:
  assumes "T \<noteq> 0"
  shows "\<bar>f64 (f64 A / f64 T) - A / T\<bar> \<le> 9 / 2 ^ 54 * \<bar>A / T\<bar>"
  by (rule f64_near [OF f64_quotient_near [OF assms]]) simp

lemma f64_term_near:
  assumes "T \<noteq> 0"
  shows "\<bar>f64 (R * f64 (f64 A / f64 T)) - R * (A / T)\<bar> \<le> 6 / 2 ^ 53 * \<bar>R * (A / T)\<bar>"
proof (rule f64_near)
  have "\<bar>R * f64 (f64 A / f64 T) - R * (A / T)\<bar> = \<bar>R\<bar> * \<bar>f64 (f64 A / f64 T) - A / T\<bar>"
    by (simp only: right_diff_distrib [symmetric] abs_mult)
  also have "\<dots> \<le> \<bar>R\<bar> * (9 / 2 ^ 54 * \<bar>A / T\<bar>)"
    using f64_weight_near [OF assms, of A] by (intro mult_left_mono) simp_all
  also have "\<dots> = 9 / 2 ^ 54 * \<bar>R * (A / T)\<bar>" by (simp add: abs_mult)
  finally show "\<bar>R * f64 (f64 A / f64 T) - R * (A / T)\<bar> \<le> 9 / 2 ^ 54 * \<bar>R * (A / T)\<bar>" .
  show "(9::real) / 2 ^ 54 + (1 + 9 / 2 ^ 54) / 2 ^ 53 \<le> 6 / 2 ^ 53" by simp
qed

lemma f64_weighted_sum:
  fixes A B T L H :: real
  assumes "0 \<le> A" "0 \<le> B" "A + B = T" "0 < T"
  shows "\<bar>f64 (f64 (H * f64 (f64 B / f64 T)) + f64 (L * f64 (f64 A / f64 T)))
           - (H * (B / T) + L * (A / T))\<bar> \<le> max \<bar>L\<bar> \<bar>H\<bar> / 2 ^ 50"
proof -
  define M where "M = max \<bar>L\<bar> \<bar>H\<bar>"
  define S where "S = H * (B / T) + L * (A / T)"
  define S' where "S' = f64 (H * f64 (f64 B / f64 T)) + f64 (L * f64 (f64 A / f64 T))"
  have T0: "T \<noteq> 0" using assms(4) by simp
  have w: "0 \<le> A / T" "0 \<le> B / T" "A / T + B / T = 1"
    using assms by (simp_all flip: add_divide_distrib)
  have M0: "0 \<le> M" by (simp add: M_def)
  have "\<bar>H * (B / T)\<bar> = \<bar>H\<bar> * (B / T)"
    using w(2) by (simp only: abs_mult abs_of_nonneg)
  also have "\<dots> \<le> M * (B / T)"
    using w(2) by (intro mult_right_mono) (simp_all add: M_def)
  finally have tH: "\<bar>H * (B / T)\<bar> \<le> M * (B / T)" .
  have "\<bar>L * (A / T)\<bar> = \<bar>L\<bar> * (A / T)"
    using w(1) by (simp only: abs_mult abs_of_nonneg)
  also have "\<dots> \<le> M * (A / T)"
    using w(1) by (intro mult_right_mono) (simp_all add: M_def)
  finally have tL: "\<bar>L * (A / T)\<bar> \<le> M * (A / T)" .
  have "M * (B / T) + M * (A / T) = M * (A / T + B / T)" by (simp add: algebra_simps)
  then have sumM: "M * (B / T) + M * (A / T) = M" using w(3) by simp
  have terms: "\<bar>H * (B / T)\<bar> + \<bar>L * (A / T)\<bar> \<le> M" using tH tL sumM by linarith
  have Sabs: "\<bar>S\<bar> \<le> M" unfolding S_def using terms by linarith
  have tri: "\<bar>a + b - (c + d)\<bar> \<le> \<bar>a - c\<bar> + \<bar>b - d\<bar>" for a b c d :: real
    by linarith
  have "\<bar>S' - S\<bar> \<le> \<bar>f64 (H * f64 (f64 B / f64 T)) - H * (B / T)\<bar>
                 + \<bar>f64 (L * f64 (f64 A / f64 T)) - L * (A / T)\<bar>"
    unfolding S'_def S_def by (rule tri)
  also have "\<dots> \<le> 6 / 2 ^ 53 * \<bar>H * (B / T)\<bar> + 6 / 2 ^ 53 * \<bar>L * (A / T)\<bar>"
    by (intro add_mono f64_term_near [OF T0])
  also have "\<dots> = 6 / 2 ^ 53 * (\<bar>H * (B / T)\<bar> + \<bar>L * (A / T)\<bar>)" by (simp add: algebra_simps)
  also have "\<dots> \<le> 6 / 2 ^ 53 * M" using terms by (intro mult_left_mono) simp_all
  finally have d: "\<bar>S' - S\<bar> \<le> 6 / 2 ^ 53 * M" .
  then have S'abs: "\<bar>S'\<bar> \<le> M + 6 / 2 ^ 53 * M" using Sabs by linarith
  have "\<bar>f64 S' - S'\<bar> \<le> \<bar>S'\<bar> / 2 ^ 53" by (rule f64_error)
  also have "\<dots> \<le> (M + 6 / 2 ^ 53 * M) / 2 ^ 53" using S'abs by (simp add: divide_right_mono)
  finally have "\<bar>f64 S' - S\<bar> \<le> (M + 6 / 2 ^ 53 * M) / 2 ^ 53 + 6 / 2 ^ 53 * M"
    using d by linarith
  also have "\<dots> = (7 / 2 ^ 53 + 6 / 2 ^ 106) * M" by (simp add: algebra_simps)
  also have "\<dots> \<le> 1 / 2 ^ 50 * M" using M0 by (intro mult_right_mono) simp_all
  finally show ?thesis unfolding S'_def S_def M_def by simp
qed

subsection \<open>The barrier notes in doubles against their closed form\<close>

lemma BTCUp_f64_inside:
  assumes "s < p" "p < e"
  shows "BTCUp_end_earning_rate_f64
           \<lparr> up_duration = d, up_current_price = c, up_start_increase_price = s,
             up_end_increase_price = e, up_low_earning_rate = L, up_high_earning_rate = H \<rparr> p =
         Inr (f64 (f64 (H * f64 (f64 (p - s) / f64 (e - s)))
                   + f64 (L * f64 (f64 (e - p) / f64 (e - s)))))"
  using assms
  by (simp add: BTCUp_end_earning_rate_f64_def BTCUp_interpolate_f64_def f64_div_def Let_def)

lemma BTCUp_f64_corridor:
  assumes "s < e"
  shows "\<exists>r. BTCUp_end_earning_rate_f64
           \<lparr> up_duration = d, up_current_price = c, up_start_increase_price = s,
             up_end_increase_price = e, up_low_earning_rate = L, up_high_earning_rate = H \<rparr> p
           = Inr r \<and>
         \<bar>r - (L + (H - L) * ((max s (min e p) - s) / (e - s)))\<bar> \<le> max \<bar>L\<bar> \<bar>H\<bar> / 2 ^ 50"
proof -
  have M: "0 \<le> max \<bar>L\<bar> \<bar>H\<bar> / 2 ^ 50" by simp
  consider "p \<le> s" | "e \<le> p" "s < p" | "s < p" "p < e" by linarith
  then show ?thesis
  proof cases
    case 1
    then have "max s (min e p) = s" using assms by (simp add: max_def min_def)
    then show ?thesis using 1 M by (simp add: BTCUp_end_earning_rate_f64_def)
  next
    case 2
    then have "max s (min e p) = e" using assms by (simp add: max_def min_def)
    then show ?thesis using 2 M assms by (simp add: BTCUp_end_earning_rate_f64_def)
  next
    case 3
    then have m: "max s (min e p) = p" by (simp add: max_def min_def)
    have ne: "s \<noteq> e" using assms by simp
    have "\<bar>f64 (f64 (H * f64 (f64 (p - s) / f64 (e - s)))
                   + f64 (L * f64 (f64 (e - p) / f64 (e - s))))
           - (H * ((p - s) / (e - s)) + L * ((e - p) / (e - s)))\<bar> \<le> max \<bar>L\<bar> \<bar>H\<bar> / 2 ^ 50"
      using 3 assms by (intro f64_weighted_sum) simp_all
    then show ?thesis
      unfolding BTCUp_f64_inside [OF 3] m interpolate_as_offset [OF ne] by blast
  qed
qed

lemma BTCUp_f64_no_corridor:
  assumes "e \<le> s"
  shows "BTCUp_end_earning_rate_f64
           \<lparr> up_duration = d, up_current_price = c, up_start_increase_price = s,
             up_end_increase_price = e, up_low_earning_rate = L, up_high_earning_rate = H \<rparr> p =
         Inr (if p \<le> s then L else H)"
  using assms by (simp add: BTCUp_end_earning_rate_f64_def)

lemma BTCDown_f64_mirror:
  assumes "b < a"
  shows "BTCDown_end_earning_rate_f64
           \<lparr> down_duration = d, down_current_price = c, down_start_increase_price = a,
             down_end_increase_price = b, down_low_earning_rate = L,
             down_high_earning_rate = H \<rparr> p =
         BTCUp_end_earning_rate_f64
           \<lparr> up_duration = d, up_current_price = c, up_start_increase_price = b,
             up_end_increase_price = a, up_low_earning_rate = H, up_high_earning_rate = L \<rparr> p"
proof -
  consider "a \<le> p" | "p \<le> b" | "b < p" "p < a" by linarith
  then show ?thesis
  proof cases
    case 1
    then show ?thesis using assms
      by (simp add: BTCDown_end_earning_rate_f64_def BTCUp_end_earning_rate_f64_def)
  next
    case 2
    then show ?thesis using assms
      by (simp add: BTCDown_end_earning_rate_f64_def BTCUp_end_earning_rate_f64_def)
  next
    case 3
    then show ?thesis using assms
      by (simp add: BTCDown_end_earning_rate_f64_def BTCDown_interpolate_f64_def
          BTCUp_end_earning_rate_f64_def BTCUp_interpolate_f64_def f64_div_def Let_def
          add.commute)
  qed
qed

lemma BTCDown_f64_corridor:
  assumes "e < s"
  shows "\<exists>r. BTCDown_end_earning_rate_f64
           \<lparr> down_duration = d, down_current_price = c, down_start_increase_price = s,
             down_end_increase_price = e, down_low_earning_rate = L,
             down_high_earning_rate = H \<rparr> p
           = Inr r \<and>
         \<bar>r - (H + (L - H) * ((max e (min s p) - e) / (s - e)))\<bar> \<le> max \<bar>L\<bar> \<bar>H\<bar> / 2 ^ 50"
  unfolding BTCDown_f64_mirror [OF assms]
  using BTCUp_f64_corridor [OF assms, of d c H L p] by (simp add: max.commute)

lemma BTCDown_f64_no_corridor:
  assumes "s \<le> e"
  shows "BTCDown_end_earning_rate_f64
           \<lparr> down_duration = d, down_current_price = c, down_start_increase_price = s,
             down_end_increase_price = e, down_low_earning_rate = L,
             down_high_earning_rate = H \<rparr> p =
         Inr (if s \<le> p then L else H)"
  using assms by (simp add: BTCDown_end_earning_rate_f64_def)

lemma within_rounding_exact: "within_rounding L H L" "within_rounding L H H"
proof -
  have t: "0 \<le> max \<bar>L\<bar> \<bar>H\<bar> / 2 ^ 50" by simp
  have "min L H \<le> L" "L \<le> max L H" "min L H \<le> H" "H \<le> max L H" by simp_all
  then show "within_rounding L H L" "within_rounding L H H"
    unfolding within_rounding_def using t by linarith+
qed

lemma within_rounding_near:
  assumes "\<bar>r - x\<bar> \<le> max \<bar>L\<bar> \<bar>H\<bar> / 2 ^ 50" "min L H \<le> x" "x \<le> max L H"
  shows "within_rounding L H r"
  unfolding within_rounding_def using assms by linarith

lemma within_rounding_commute: "within_rounding L H r = within_rounding H L r"
  by (simp add: within_rounding_def min.commute max.commute)

lemma BTCUp_f64_in_range:
  "\<exists>r. BTCUp_end_earning_rate_f64
           \<lparr> up_duration = d, up_current_price = c, up_start_increase_price = s,
             up_end_increase_price = e, up_low_earning_rate = L, up_high_earning_rate = H \<rparr> p
         = Inr r \<and> within_rounding L H r"
proof (cases "s < e")
  case True
  from BTCUp_f64_corridor [OF True, of d c L H p] obtain r where
    r: "BTCUp_end_earning_rate_f64
           \<lparr> up_duration = d, up_current_price = c, up_start_increase_price = s,
             up_end_increase_price = e, up_low_earning_rate = L, up_high_earning_rate = H \<rparr> p
         = Inr r"
    and n: "\<bar>r - (L + (H - L) * ((max s (min e p) - s) / (e - s)))\<bar> \<le> max \<bar>L\<bar> \<bar>H\<bar> / 2 ^ 50"
    by blast
  from within_rounding_near [OF n convex_between [OF clamp_fraction_bounds [OF True, of p], of L H]]
  show ?thesis using r by blast
next
  case False
  then have "e \<le> s" by simp
  then show ?thesis
    unfolding BTCUp_f64_no_corridor [OF \<open>e \<le> s\<close>] by (simp add: within_rounding_exact)
qed

lemma BTCDown_f64_in_range:
  "\<exists>r. BTCDown_end_earning_rate_f64
           \<lparr> down_duration = d, down_current_price = c, down_start_increase_price = s,
             down_end_increase_price = e, down_low_earning_rate = L,
             down_high_earning_rate = H \<rparr> p
         = Inr r \<and> within_rounding L H r"
proof (cases "e < s")
  case True
  show ?thesis
    unfolding BTCDown_f64_mirror [OF True] within_rounding_commute [of L H]
    by (rule BTCUp_f64_in_range)
next
  case False
  then have "s \<le> e" by simp
  then show ?thesis
    unfolding BTCDown_f64_no_corridor [OF \<open>s \<le> e\<close>] by (simp add: within_rounding_exact)
qed

lemma period_rate_f64_mono:
  assumes "0 \<le> d" "lo \<le> hi"
  shows "f64 (f64 (f64 lo / 360) * f64 d) \<le> f64 (f64 (f64 hi / 360) * f64 d)"
proof -
  have d: "0 \<le> f64 d" using f64_mono [OF assms(1)] by simp
  have "f64 lo / 360 \<le> f64 hi / 360"
    using f64_mono [OF assms(2)] by (simp add: divide_right_mono)
  then have "f64 (f64 lo / 360) \<le> f64 (f64 hi / 360)" by (rule f64_mono)
  then have "f64 (f64 lo / 360) * f64 d \<le> f64 (f64 hi / 360) * f64 d"
    using d by (rule mult_right_mono)
  then show ?thesis by (rule f64_mono)
qed

lemma two_tolerances:
  fixes M :: real
  shows "M / 2 ^ 50 + M / 2 ^ 50 = M / 2 ^ 49"
  by simp

lemma BTCUp_f64_monotone:
  assumes "s \<le> e" "L \<le> H" "p1 \<le> p2"
  shows "\<exists>r1 r2.
     BTCUp_end_earning_rate_f64
       \<lparr> up_duration = d, up_current_price = c, up_start_increase_price = s,
         up_end_increase_price = e, up_low_earning_rate = L, up_high_earning_rate = H \<rparr> p1
       = Inr r1 \<and>
     BTCUp_end_earning_rate_f64
       \<lparr> up_duration = d, up_current_price = c, up_start_increase_price = s,
         up_end_increase_price = e, up_low_earning_rate = L, up_high_earning_rate = H \<rparr> p2
       = Inr r2 \<and>
     r1 \<le> r2 + max \<bar>L\<bar> \<bar>H\<bar> / 2 ^ 49"
proof (cases "s < e")
  case True
  define X where "X p = L + (H - L) * ((max s (min e p) - s) / (e - s))" for p
  from BTCUp_f64_corridor [OF True, of d c L H p1] obtain r1 where
    r1: "BTCUp_end_earning_rate_f64
       \<lparr> up_duration = d, up_current_price = c, up_start_increase_price = s,
         up_end_increase_price = e, up_low_earning_rate = L, up_high_earning_rate = H \<rparr> p1
       = Inr r1" and n1: "\<bar>r1 - X p1\<bar> \<le> max \<bar>L\<bar> \<bar>H\<bar> / 2 ^ 50"
    unfolding X_def by blast
  from BTCUp_f64_corridor [OF True, of d c L H p2] obtain r2 where
    r2: "BTCUp_end_earning_rate_f64
       \<lparr> up_duration = d, up_current_price = c, up_start_increase_price = s,
         up_end_increase_price = e, up_low_earning_rate = L, up_high_earning_rate = H \<rparr> p2
       = Inr r2" and n2: "\<bar>r2 - X p2\<bar> \<le> max \<bar>L\<bar> \<bar>H\<bar> / 2 ^ 50"
    unfolding X_def by blast
  have "X p1 \<le> X p2"
    unfolding X_def by (rule offset_mono [OF assms(2) clamp_fraction_mono [OF True assms(3)]])
  then have "r1 \<le> r2 + (max \<bar>L\<bar> \<bar>H\<bar> / 2 ^ 50 + max \<bar>L\<bar> \<bar>H\<bar> / 2 ^ 50)"
    using n1 n2 by linarith
  then have "r1 \<le> r2 + max \<bar>L\<bar> \<bar>H\<bar> / 2 ^ 49" unfolding two_tolerances .
  then show ?thesis using r1 r2 by blast
next
  case False
  then have es: "e \<le> s" by simp
  have t: "0 \<le> max \<bar>L\<bar> \<bar>H\<bar> / 2 ^ 49" by simp
  have "(if p1 \<le> s then L else H) \<le> (if p2 \<le> s then L else H)"
    using assms(2,3) by simp
  then have "(if p1 \<le> s then L else H)
      \<le> (if p2 \<le> s then L else H) + max \<bar>L\<bar> \<bar>H\<bar> / 2 ^ 49"
    using t by linarith
  then show ?thesis
    unfolding BTCUp_f64_no_corridor [OF es] by blast
qed

lemma BTCDown_f64_monotone:
  assumes "e \<le> s" "L \<le> H" "p1 \<le> p2"
  shows "\<exists>r1 r2.
     BTCDown_end_earning_rate_f64
       \<lparr> down_duration = d, down_current_price = c, down_start_increase_price = s,
         down_end_increase_price = e, down_low_earning_rate = L,
         down_high_earning_rate = H \<rparr> p1
       = Inr r1 \<and>
     BTCDown_end_earning_rate_f64
       \<lparr> down_duration = d, down_current_price = c, down_start_increase_price = s,
         down_end_increase_price = e, down_low_earning_rate = L,
         down_high_earning_rate = H \<rparr> p2
       = Inr r2 \<and>
     r2 \<le> r1 + max \<bar>L\<bar> \<bar>H\<bar> / 2 ^ 49"
proof (cases "e < s")
  case True
  define X where "X p = H + (L - H) * ((max e (min s p) - e) / (s - e))" for p
  from BTCDown_f64_corridor [OF True, of d c L H p1] obtain r1 where
    r1: "BTCDown_end_earning_rate_f64
       \<lparr> down_duration = d, down_current_price = c, down_start_increase_price = s,
         down_end_increase_price = e, down_low_earning_rate = L,
         down_high_earning_rate = H \<rparr> p1
       = Inr r1" and n1: "\<bar>r1 - X p1\<bar> \<le> max \<bar>L\<bar> \<bar>H\<bar> / 2 ^ 50"
    unfolding X_def by blast
  from BTCDown_f64_corridor [OF True, of d c L H p2] obtain r2 where
    r2: "BTCDown_end_earning_rate_f64
       \<lparr> down_duration = d, down_current_price = c, down_start_increase_price = s,
         down_end_increase_price = e, down_low_earning_rate = L,
         down_high_earning_rate = H \<rparr> p2
       = Inr r2" and n2: "\<bar>r2 - X p2\<bar> \<le> max \<bar>L\<bar> \<bar>H\<bar> / 2 ^ 50"
    unfolding X_def by blast
  have "X p2 \<le> X p1"
    unfolding X_def by (rule offset_antimono [OF assms(2) clamp_fraction_mono [OF True assms(3)]])
  then have "r2 \<le> r1 + (max \<bar>L\<bar> \<bar>H\<bar> / 2 ^ 50 + max \<bar>L\<bar> \<bar>H\<bar> / 2 ^ 50)"
    using n1 n2 by linarith
  then have "r2 \<le> r1 + max \<bar>L\<bar> \<bar>H\<bar> / 2 ^ 49" unfolding two_tolerances .
  then show ?thesis using r1 r2 by blast
next
  case False
  then have se: "s \<le> e" by simp
  have t: "0 \<le> max \<bar>L\<bar> \<bar>H\<bar> / 2 ^ 49" by simp
  have "(if s \<le> p2 then L else H) \<le> (if s \<le> p1 then L else H)"
    using assms(2,3) by simp
  then have "(if s \<le> p2 then L else H)
      \<le> (if s \<le> p1 then L else H) + max \<bar>L\<bar> \<bar>H\<bar> / 2 ^ 49"
    using t by linarith
  then show ?thesis
    unfolding BTCDown_f64_no_corridor [OF se] by blast
qed

subsection \<open>Two notes evaluated in doubles\<close>

text \<open>
  A note of 8 days with both annual rates 135, so both period rates are the double 3,
  over the corridor from 0 to 5 and from 0 to 10. The weights \<open>1 / 5\<close>, \<open>4 / 5\<close>,
  \<open>3 / 10\<close> and \<open>7 / 10\<close> are no doubles, and three times each of them rounds again.
\<close>

lemma f64_1 [simp]: "f64 1 = 1"
  by (subst f64_eval [where k = 0]) (simp_all add: round_even_def)

lemma f64_2: "f64 2 = 2"
  by (subst f64_eval [where k = 1]) (simp_all add: round_even_def power_int_minus)

lemma f64_3: "f64 3 = 3"
  by (subst f64_eval [where k = 1]) (simp_all add: round_even_def power_int_minus)

lemma f64_4: "f64 4 = 4"
  by (subst f64_eval [where k = 2]) (simp_all add: round_even_def power_int_minus)

lemma f64_5: "f64 5 = 5"
  by (subst f64_eval [where k = 2]) (simp_all add: round_even_def power_int_minus)

lemma f64_7: "f64 7 = 7"
  by (subst f64_eval [where k = 2]) (simp_all add: round_even_def power_int_minus)

lemma f64_8: "f64 8 = 8"
  by (subst f64_eval [where k = 3]) (simp_all add: round_even_def power_int_minus)

lemma f64_10: "f64 10 = 10"
  by (subst f64_eval [where k = 3]) (simp_all add: round_even_def power_int_minus)

lemma f64_100: "f64 100 = 100"
  by (subst f64_eval [where k = 6]) (simp_all add: round_even_def power_int_minus)

lemma f64_135: "f64 135 = 135"
  by (subst f64_eval [where k = 7]) (simp_all add: round_even_def power_int_minus)

lemma f64_3_8: "f64 (3 / 8) = 3 / 8"
  by (subst f64_eval [where k = "- 2"]) (simp_all add: round_even_def power_int_minus)

lemma f64_4_5: "f64 (4 / 5) = 3602879701896397 / 2 ^ 52"
  by (subst f64_eval [where k = "- 1"]) (simp_all add: round_even_def power_int_minus)

lemma f64_1_5: "f64 (1 / 5) = 3602879701896397 / 2 ^ 54"
  by (subst f64_eval [where k = "- 3"]) (simp_all add: round_even_def power_int_minus)

lemma f64_7_10: "f64 (7 / 10) = 3152519739159347 / 2 ^ 52"
  by (subst f64_eval [where k = "- 1"]) (simp_all add: round_even_def power_int_minus)

lemma f64_3_10: "f64 (3 / 10) = 5404319552844595 / 2 ^ 54"
  by (subst f64_eval [where k = "- 2"]) (simp_all add: round_even_def power_int_minus)

lemma f64_3_times_1_5: "f64 (3 * (3602879701896397 / 2 ^ 54)) = 5404319552844596 / 2 ^ 53"
  by (subst f64_eval [where k = "- 1"]) (simp_all add: round_even_def power_int_minus)

lemma f64_3_times_4_5: "f64 (3 * (3602879701896397 / 2 ^ 52)) = 5404319552844596 / 2 ^ 51"
  by (subst f64_eval [where k = 1]) (simp_all add: round_even_def power_int_minus)

lemma f64_3_times_3_10: "f64 (3 * (5404319552844595 / 2 ^ 54)) = 8106479329266892 / 2 ^ 53"
  by (subst f64_eval [where k = "- 1"]) (simp_all add: round_even_def power_int_minus)

lemma f64_3_times_7_10: "f64 (3 * (3152519739159347 / 2 ^ 52)) = 4728779608739020 / 2 ^ 51"
  by (subst f64_eval [where k = 1]) (simp_all add: round_even_def power_int_minus)

lemma f64_sum_above: "f64 (5404319552844596 / 2 ^ 53 + 5404319552844596 / 2 ^ 51) = 3 + 1 / 2 ^ 51"
  by (subst f64_eval [where k = 1]) (simp_all add: round_even_def power_int_minus)

lemma f64_sum_below: "f64 (8106479329266892 / 2 ^ 53 + 4728779608739020 / 2 ^ 51) = 3 - 1 / 2 ^ 51"
  by (subst f64_eval [where k = 1]) (simp_all add: round_even_def power_int_minus)

lemma rate_135_8: "f64 (f64 (f64 135 / 360) * f64 8) = 3"
proof -
  have "f64 135 / 360 = (3 / 8 :: real)" by (simp add: f64_135)
  then have "f64 (f64 135 / 360) * f64 8 = 3" by (simp add: f64_3_8 f64_8)
  then show ?thesis by (simp add: f64_3)
qed

lemma up_5_at_1:
  "BTCUp_end_earning_rate_f64 (BTCUp_init_f64 8 100 0 5 135 135) 1 = Inr (3 + 1 / 2 ^ 51)"
proof -
  have init: "BTCUp_init_f64 8 100 0 5 135 135 =
      \<lparr> up_duration = 8, up_current_price = 100, up_start_increase_price = 0,
        up_end_increase_price = 5, up_low_earning_rate = 3, up_high_earning_rate = 3 \<rparr>"
    unfolding BTCUp_init_f64_def rate_135_8 by (simp add: f64_8 f64_100 f64_5)
  have h: "f64 (f64 (1 - 0) / f64 (5 - 0)) = 3602879701896397 / 2 ^ 54"
  proof -
    have "f64 (1 - 0) / f64 (5 - 0) = (1 / 5 :: real)" by (simp add: f64_1 f64_5)
    then show ?thesis by (simp only: f64_1_5)
  qed
  have l: "f64 (f64 (5 - 1) / f64 (5 - 0)) = 3602879701896397 / 2 ^ 52"
  proof -
    have "f64 (5 - 1) / f64 (5 - 0) = (4 / 5 :: real)" by (simp add: f64_4 f64_5)
    then show ?thesis by (simp only: f64_4_5)
  qed
  have "BTCUp_end_earning_rate_f64 (BTCUp_init_f64 8 100 0 5 135 135) 1 =
      Inr (f64 (f64 (3 * f64 (f64 (1 - 0) / f64 (5 - 0)))
                + f64 (3 * f64 (f64 (5 - 1) / f64 (5 - 0)))))"
    unfolding init by (rule BTCUp_f64_inside) simp_all
  also have "\<dots> = Inr (3 + 1 / 2 ^ 51)"
    by (simp only: h l f64_3_times_1_5 f64_3_times_4_5 f64_sum_above)
  finally show ?thesis .
qed

lemma up_10_init:
  "BTCUp_init_f64 8 100 0 10 135 135 =
      \<lparr> up_duration = 8, up_current_price = 100, up_start_increase_price = 0,
        up_end_increase_price = 10, up_low_earning_rate = 3, up_high_earning_rate = 3 \<rparr>"
  unfolding BTCUp_init_f64_def rate_135_8 by (simp add: f64_8 f64_100 f64_10)

lemma up_10_at_2:
  "BTCUp_end_earning_rate_f64 (BTCUp_init_f64 8 100 0 10 135 135) 2 = Inr (3 + 1 / 2 ^ 51)"
proof -
  have h: "f64 (f64 (2 - 0) / f64 (10 - 0)) = 3602879701896397 / 2 ^ 54"
  proof -
    have "f64 (2 - 0) / f64 (10 - 0) = (1 / 5 :: real)" by (simp add: f64_2 f64_10)
    then show ?thesis by (simp only: f64_1_5)
  qed
  have l: "f64 (f64 (10 - 2) / f64 (10 - 0)) = 3602879701896397 / 2 ^ 52"
  proof -
    have "f64 (10 - 2) / f64 (10 - 0) = (4 / 5 :: real)" by (simp add: f64_8 f64_10)
    then show ?thesis by (simp only: f64_4_5)
  qed
  have "BTCUp_end_earning_rate_f64 (BTCUp_init_f64 8 100 0 10 135 135) 2 =
      Inr (f64 (f64 (3 * f64 (f64 (2 - 0) / f64 (10 - 0)))
                + f64 (3 * f64 (f64 (10 - 2) / f64 (10 - 0)))))"
    unfolding up_10_init by (rule BTCUp_f64_inside) simp_all
  also have "\<dots> = Inr (3 + 1 / 2 ^ 51)"
    by (simp only: h l f64_3_times_1_5 f64_3_times_4_5 f64_sum_above)
  finally show ?thesis .
qed

lemma up_10_at_3:
  "BTCUp_end_earning_rate_f64 (BTCUp_init_f64 8 100 0 10 135 135) 3 = Inr (3 - 1 / 2 ^ 51)"
proof -
  have h: "f64 (f64 (3 - 0) / f64 (10 - 0)) = 5404319552844595 / 2 ^ 54"
  proof -
    have "f64 (3 - 0) / f64 (10 - 0) = (3 / 10 :: real)" by (simp add: f64_3 f64_10)
    then show ?thesis by (simp only: f64_3_10)
  qed
  have l: "f64 (f64 (10 - 3) / f64 (10 - 0)) = 3152519739159347 / 2 ^ 52"
  proof -
    have "f64 (10 - 3) / f64 (10 - 0) = (7 / 10 :: real)" by (simp add: f64_7 f64_10)
    then show ?thesis by (simp only: f64_7_10)
  qed
  have "BTCUp_end_earning_rate_f64 (BTCUp_init_f64 8 100 0 10 135 135) 3 =
      Inr (f64 (f64 (3 * f64 (f64 (3 - 0) / f64 (10 - 0)))
                + f64 (3 * f64 (f64 (10 - 3) / f64 (10 - 0)))))"
    unfolding up_10_init by (rule BTCUp_f64_inside) simp_all
  also have "\<dots> = Inr (3 - 1 / 2 ^ 51)"
    by (simp only: h l f64_3_times_3_10 f64_3_times_7_10 f64_sum_below)
  finally show ?thesis .
qed

lemma BTCUp_interpolate_f64_ends:
  assumes "s < e" "f64 L = L" "f64 H = H"
  shows "BTCUp_interpolate_f64
           \<lparr> up_duration = d, up_current_price = c, up_start_increase_price = s,
             up_end_increase_price = e, up_low_earning_rate = L, up_high_earning_rate = H \<rparr> s
         = Inr L"
    and "BTCUp_interpolate_f64
           \<lparr> up_duration = d, up_current_price = c, up_start_increase_price = s,
             up_end_increase_price = e, up_low_earning_rate = L, up_high_earning_rate = H \<rparr> e
         = Inr H"
  using assms by (simp_all add: BTCUp_interpolate_f64_def f64_div_def)

lemma BTCDown_interpolate_f64_ends:
  assumes "e < s" "f64 L = L" "f64 H = H"
  shows "BTCDown_interpolate_f64
           \<lparr> down_duration = d, down_current_price = c, down_start_increase_price = s,
             down_end_increase_price = e, down_low_earning_rate = L,
             down_high_earning_rate = H \<rparr> s
         = Inr L"
    and "BTCDown_interpolate_f64
           \<lparr> down_duration = d, down_current_price = c, down_start_increase_price = s,
             down_end_increase_price = e, down_low_earning_rate = L,
             down_high_earning_rate = H \<rparr> e
         = Inr H"
  using assms by (simp_all add: BTCDown_interpolate_f64_def f64_div_def)

lemma BTCUp_f64_near_exact:
  "\<exists>r r'. BTCUp_end_earning_rate
           \<lparr> up_duration = d, up_current_price = c, up_start_increase_price = s,
             up_end_increase_price = e, up_low_earning_rate = L, up_high_earning_rate = H \<rparr> p
           = Inr r \<and>
         BTCUp_end_earning_rate_f64
           \<lparr> up_duration = d, up_current_price = c, up_start_increase_price = s,
             up_end_increase_price = e, up_low_earning_rate = L, up_high_earning_rate = H \<rparr> p
           = Inr r' \<and>
         \<bar>r' - r\<bar> \<le> max \<bar>L\<bar> \<bar>H\<bar> / 2 ^ 50"
proof (cases "s < e")
  case True
  show ?thesis
    unfolding BTCUp_corridor [OF True]
    using BTCUp_f64_corridor [OF True, of d c L H p] by blast
next
  case False
  then have es: "e \<le> s" by simp
  show ?thesis
    unfolding BTCUp_no_corridor [OF es] BTCUp_f64_no_corridor [OF es] by simp
qed

lemma BTCDown_f64_near_exact:
  "\<exists>r r'. BTCDown_end_earning_rate
           \<lparr> down_duration = d, down_current_price = c, down_start_increase_price = s,
             down_end_increase_price = e, down_low_earning_rate = L,
             down_high_earning_rate = H \<rparr> p
           = Inr r \<and>
         BTCDown_end_earning_rate_f64
           \<lparr> down_duration = d, down_current_price = c, down_start_increase_price = s,
             down_end_increase_price = e, down_low_earning_rate = L,
             down_high_earning_rate = H \<rparr> p
           = Inr r' \<and>
         \<bar>r' - r\<bar> \<le> max \<bar>L\<bar> \<bar>H\<bar> / 2 ^ 50"
proof (cases "e < s")
  case True
  show ?thesis
    unfolding BTCDown_corridor [OF True]
    using BTCDown_f64_corridor [OF True, of d c L H p] by blast
next
  case False
  then have se: "s \<le> e" by simp
  show ?thesis
    unfolding BTCDown_no_corridor [OF se] BTCDown_f64_no_corridor [OF se] by simp
qed

section \<open>Properties\<close>

subsection \<open>BTCU: the dual-currency note\<close>

text \<open>
  C8. Constructing a BTCU fails if and only if \<open>buy_price \<ge> hook_price\<close>: then the
  constructor's assertion raises and no object exists; with \<open>buy_price < hook_price\<close>
  the constructor returns an object, whatever the other three arguments are.
\<close>

theorem BTCU_init_fails_iff:
  "(hook_price \<le> buy_price \<longrightarrow> BTCU_init d c hook_price buy_price a = Inl AssertionError)
   \<and> (buy_price < hook_price \<longrightarrow> (\<exists>self. BTCU_init d c hook_price buy_price a = Inr self))
   \<and> ((\<exists>e. BTCU_init d c hook_price buy_price a = Inl e) \<longleftrightarrow> hook_price \<le> buy_price)"
  by (auto simp: BTCU_init_def)

theorem BTCU_init_fails_iff_witness:
  "BTCU_init 15 21433.64 20000 20000 0.1 = Inl AssertionError
   \<and> (\<exists>self. BTCU_init 15 21433.64 20000 15000 0.1 = Inr self)"
  using BTCU_init_fails_iff [of 20000 20000 15 "21433.64" "0.1"]
    BTCU_init_fails_iff [of 20000 15000 15 "21433.64" "0.1"]
  by simp



subsection \<open>BTCDown and BTCUp: the barrier notes\<close>

text \<open>
  C4. With a proper corridor (\<open>start_increase_price > end_increase_price\<close> for
  BTCDown, \<open>start_increase_price < end_increase_price\<close> for BTCUp) the interpolation
  formula of the middle branch, taken at \<open>start_increase_price\<close>, is exactly the low
  period rate, which is what the method returns there, and taken at
  \<open>end_increase_price\<close> it is exactly the high period rate, which is what the method
  returns there. So the method has no jump at either bound; indeed it returns a number
  for every price, and that number is a continuous function of the price.
\<close>

theorem barrier_interpolation_meets_plateaus:
  "(e < s \<longrightarrow>
      BTCDown_interpolate (BTCDown_init d c s e lo hi) s = Inr (lo / 360 * d) \<and>
      BTCDown_end_earning_rate (BTCDown_init d c s e lo hi) s = Inr (lo / 360 * d) \<and>
      BTCDown_interpolate (BTCDown_init d c s e lo hi) e = Inr (hi / 360 * d) \<and>
      BTCDown_end_earning_rate (BTCDown_init d c s e lo hi) e = Inr (hi / 360 * d) \<and>
      (\<exists>f. continuous_on UNIV f \<and>
           (\<forall>p. BTCDown_end_earning_rate (BTCDown_init d c s e lo hi) p = Inr (f p))))
   \<and> (s < e \<longrightarrow>
      BTCUp_interpolate (BTCUp_init d c s e lo hi) s = Inr (lo / 360 * d) \<and>
      BTCUp_end_earning_rate (BTCUp_init d c s e lo hi) s = Inr (lo / 360 * d) \<and>
      BTCUp_interpolate (BTCUp_init d c s e lo hi) e = Inr (hi / 360 * d) \<and>
      BTCUp_end_earning_rate (BTCUp_init d c s e lo hi) e = Inr (hi / 360 * d) \<and>
      (\<exists>f. continuous_on UNIV f \<and>
           (\<forall>p. BTCUp_end_earning_rate (BTCUp_init d c s e lo hi) p = Inr (f p))))"
  unfolding BTCDown_init_def BTCUp_init_def
proof (intro conjI impI)
  assume es: "e < s"
  show "BTCDown_interpolate
         \<lparr>down_duration = d, down_current_price = c, down_start_increase_price = s,
            down_end_increase_price = e, down_low_earning_rate = lo / 360 * d,
            down_high_earning_rate = hi / 360 * d\<rparr> s = Inr (lo / 360 * d)"
    by (rule BTCDown_interpolate_ends [OF es])
  show "BTCDown_interpolate
         \<lparr>down_duration = d, down_current_price = c, down_start_increase_price = s,
            down_end_increase_price = e, down_low_earning_rate = lo / 360 * d,
            down_high_earning_rate = hi / 360 * d\<rparr> e = Inr (hi / 360 * d)"
    by (rule BTCDown_interpolate_ends [OF es])
  show "BTCDown_end_earning_rate
         \<lparr>down_duration = d, down_current_price = c, down_start_increase_price = s,
            down_end_increase_price = e, down_low_earning_rate = lo / 360 * d,
            down_high_earning_rate = hi / 360 * d\<rparr> s = Inr (lo / 360 * d)"
    by (simp add: BTCDown_end_earning_rate_def)
  show "BTCDown_end_earning_rate
         \<lparr>down_duration = d, down_current_price = c, down_start_increase_price = s,
            down_end_increase_price = e, down_low_earning_rate = lo / 360 * d,
            down_high_earning_rate = hi / 360 * d\<rparr> e = Inr (hi / 360 * d)"
    using es by (simp add: BTCDown_end_earning_rate_def)
  show "\<exists>f. continuous_on UNIV f \<and>
      (\<forall>p. BTCDown_end_earning_rate
         \<lparr>down_duration = d, down_current_price = c, down_start_increase_price = s,
            down_end_increase_price = e, down_low_earning_rate = lo / 360 * d,
            down_high_earning_rate = hi / 360 * d\<rparr> p = Inr (f p))"
    by (rule BTCDown_continuous [OF es])
next
  assume se: "s < e"
  show "BTCUp_interpolate
         \<lparr>up_duration = d, up_current_price = c, up_start_increase_price = s,
            up_end_increase_price = e, up_low_earning_rate = lo / 360 * d,
            up_high_earning_rate = hi / 360 * d\<rparr> s = Inr (lo / 360 * d)"
    by (rule BTCUp_interpolate_ends [OF se])
  show "BTCUp_interpolate
         \<lparr>up_duration = d, up_current_price = c, up_start_increase_price = s,
            up_end_increase_price = e, up_low_earning_rate = lo / 360 * d,
            up_high_earning_rate = hi / 360 * d\<rparr> e = Inr (hi / 360 * d)"
    by (rule BTCUp_interpolate_ends [OF se])
  show "BTCUp_end_earning_rate
         \<lparr>up_duration = d, up_current_price = c, up_start_increase_price = s,
            up_end_increase_price = e, up_low_earning_rate = lo / 360 * d,
            up_high_earning_rate = hi / 360 * d\<rparr> s = Inr (lo / 360 * d)"
    by (simp add: BTCUp_end_earning_rate_def)
  show "BTCUp_end_earning_rate
         \<lparr>up_duration = d, up_current_price = c, up_start_increase_price = s,
            up_end_increase_price = e, up_low_earning_rate = lo / 360 * d,
            up_high_earning_rate = hi / 360 * d\<rparr> e = Inr (hi / 360 * d)"
    using se by (simp add: BTCUp_end_earning_rate_def)
  show "\<exists>f. continuous_on UNIV f \<and>
      (\<forall>p. BTCUp_end_earning_rate
         \<lparr>up_duration = d, up_current_price = c, up_start_increase_price = s,
            up_end_increase_price = e, up_low_earning_rate = lo / 360 * d,
            up_high_earning_rate = hi / 360 * d\<rparr> p = Inr (f p))"
    by (rule BTCUp_continuous [OF se])
qed

text \<open>
  The two notes of the script: BTCUp over the corridor 22000 to 32000 with rates 0.03
  and 0.311, BTCDown over 20000 down to 15000 with rates 0.03 and 0.164, each for 15 days.
\<close>

theorem barrier_interpolation_meets_plateaus_witness:
  "BTCUp_interpolate (BTCUp_init 15 21433.64 22000 32000 0.03 0.311) 22000 = Inr (1 / 800)
   \<and> BTCUp_end_earning_rate (BTCUp_init 15 21433.64 22000 32000 0.03 0.311) 22000 = Inr (1 / 800)
   \<and> BTCUp_interpolate (BTCUp_init 15 21433.64 22000 32000 0.03 0.311) 32000 = Inr (311 / 24000)
   \<and> BTCUp_end_earning_rate (BTCUp_init 15 21433.64 22000 32000 0.03 0.311) 32000
        = Inr (311 / 24000)
   \<and> BTCDown_interpolate (BTCDown_init 15 21433.64 20000 15000 0.03 0.164) 20000 = Inr (1 / 800)
   \<and> BTCDown_end_earning_rate (BTCDown_init 15 21433.64 20000 15000 0.03 0.164) 20000
        = Inr (1 / 800)
   \<and> BTCDown_interpolate (BTCDown_init 15 21433.64 20000 15000 0.03 0.164) 15000 = Inr (41 / 6000)
   \<and> BTCDown_end_earning_rate (BTCDown_init 15 21433.64 20000 15000 0.03 0.164) 15000
        = Inr (41 / 6000)"
  using barrier_interpolation_meets_plateaus
          [where s = 22000 and e = 32000 and d = 15 and c = "21433.64" and lo = "0.03" and hi = "0.311"]
        barrier_interpolation_meets_plateaus
          [where s = 20000 and e = 15000 and d = 15 and c = "21433.64" and lo = "0.03" and hi = "0.164"]
  by simp

text \<open>
  C5. BTCDown and BTCUp differ only in the side of the corridor that carries the low
  rate: for bounds \<open>a > b\<close>, every duration, current price, pair of rates and terminal
  price, the BTCDown from \<open>a\<close> down to \<open>b\<close> with rates \<open>(lo, hi)\<close> returns what the
  BTCUp from \<open>b\<close> up to \<open>a\<close> with rates \<open>(hi, lo)\<close> returns.
\<close>

theorem BTCDown_eq_BTCUp_swapped:
  "b < a \<Longrightarrow>
   BTCDown_end_earning_rate (BTCDown_init d c a b lo hi) p =
   BTCUp_end_earning_rate (BTCUp_init d c b a hi lo) p"
  unfolding BTCDown_init_def BTCUp_init_def by (rule BTCDown_mirror)

theorem BTCDown_eq_BTCUp_swapped_witness:
  "(15000::real) < 20000
   \<and> BTCDown_end_earning_rate (BTCDown_init 15 21433.64 20000 15000 0.03 0.164) 18000 =
     BTCUp_end_earning_rate (BTCUp_init 15 21433.64 15000 20000 0.164 0.03) 18000"
proof -
  have h: "(15000::real) < 20000" by simp
  show ?thesis
    using h BTCDown_eq_BTCUp_swapped [OF h, of 15 "21433.64" "0.03" "0.164" 18000] by simp
qed

text \<open>
  C10, as the claim states it, fails on the doubles the code computes with: inside
  the corridor the two weights are rounded one by one and need not add up to 1, so the
  weighted sum of two equal rates can leave them. Below, a BTCUp of 8 days with both
  annual rates 135 over the corridor from 0 to 5: both period rates are
  \<open>135 / 360 * 8 = 3\<close>, and at the price 1 the method returns \<open>3 + 1 / 2 ^ 51\<close>, the next
  double above 3.
\<close>

theorem barrier_end_earning_rate_f64_in_range_counterexample:
  "BTCUp_end_earning_rate_f64 (BTCUp_init_f64 8 100 0 5 135 135) 1 = Inr (3 + 1 / 2 ^ 51)
   \<and> up_low_earning_rate (BTCUp_init_f64 8 100 0 5 135 135) = 3
   \<and> up_high_earning_rate (BTCUp_init_f64 8 100 0 5 135 135) = 3
   \<and> (135 / 360 * 8 :: real) = 3
   \<and> max (3 :: real) 3 < 3 + 1 / 2 ^ 51"
  by (simp add: up_5_at_1) (simp add: BTCUp_init_f64_def rate_135_8)

text \<open>
  C10, amended: up to rounding. Whatever the order of the two corridor bounds, and for
  every terminal price, a barrier note returns a number (it never raises), and that
  number lies between the smaller and the larger of its two stored period rates, both
  widened by the share \<open>1 / 2 ^ 50\<close> of the larger of their magnitudes. The arguments of
  the constructor and the terminal price are ordinary and the terminal price is a double:
  that is where the definitions above are the doubles of the machine; the proof does not
  depend on it.
\<close>

theorem barrier_end_earning_rate_f64_in_range:
  assumes "\<forall>x \<in> {d, c, s, e, lo, hi, p}. f64_ordinary x" and "f64 p = p"
  shows "(\<exists>r. BTCDown_end_earning_rate_f64 (BTCDown_init_f64 d c s e lo hi) p = Inr r \<and>
            within_rounding (down_low_earning_rate (BTCDown_init_f64 d c s e lo hi))
                            (down_high_earning_rate (BTCDown_init_f64 d c s e lo hi)) r)
       \<and> (\<exists>r. BTCUp_end_earning_rate_f64 (BTCUp_init_f64 d c s e lo hi) p = Inr r \<and>
            within_rounding (up_low_earning_rate (BTCUp_init_f64 d c s e lo hi))
                            (up_high_earning_rate (BTCUp_init_f64 d c s e lo hi)) r)"
  unfolding BTCDown_init_f64_def BTCUp_init_f64_def BTCDown.simps BTCUp.simps
  by (intro conjI BTCDown_f64_in_range BTCUp_f64_in_range)

text \<open>
  The two notes of the script, BTCDown at 18000 and BTCUp at 27000.
\<close>

theorem barrier_end_earning_rate_f64_in_range_witness:
  "(\<exists>r. BTCDown_end_earning_rate_f64 (BTCDown_init_f64 15 21433.64 20000 15000 0.03 0.164) 18000
          = Inr r \<and>
        within_rounding (down_low_earning_rate (BTCDown_init_f64 15 21433.64 20000 15000 0.03 0.164))
          (down_high_earning_rate (BTCDown_init_f64 15 21433.64 20000 15000 0.03 0.164)) r)
   \<and> (\<exists>r. BTCUp_end_earning_rate_f64 (BTCUp_init_f64 15 21433.64 22000 32000 0.03 0.311) 27000
          = Inr r \<and>
        within_rounding (up_low_earning_rate (BTCUp_init_f64 15 21433.64 22000 32000 0.03 0.311))
          (up_high_earning_rate (BTCUp_init_f64 15 21433.64 22000 32000 0.03 0.311)) r)"
proof -
  have p1: "f64 18000 = 18000"
    by (subst f64_eval [where k = 14]) (simp_all add: round_even_def power_int_minus)
  have p2: "f64 27000 = 27000"
    by (subst f64_eval [where k = 14]) (simp_all add: round_even_def power_int_minus)
  have o1: "\<forall>x \<in> {15, 21433.64, 20000, 15000, 0.03, 0.164, 18000 :: real}. f64_ordinary x"
    by (simp add: f64_ordinary_def)
  have o2: "\<forall>x \<in> {15, 21433.64, 22000, 32000, 0.03, 0.311, 27000 :: real}. f64_ordinary x"
    by (simp add: f64_ordinary_def)
  from barrier_end_earning_rate_f64_in_range [OF o1 p1, THEN conjunct1]
    barrier_end_earning_rate_f64_in_range [OF o2 p2, THEN conjunct2]
  show ?thesis by (rule conjI)
qed

text \<open>
  C6, as the claim states it, fails on the doubles the code computes with, for the
  same reason. Below, a BTCUp of 8 days with both annual rates 135 over the corridor from
  0 to 10: at the price 2 it returns \<open>3 + 1 / 2 ^ 51\<close>, at the higher price 3 the lower
  value \<open>3 - 1 / 2 ^ 51\<close>.
\<close>

theorem barrier_end_earning_rate_f64_monotone_counterexample:
  "(0 :: real) < 10 \<and> (135 :: real) \<le> 135 \<and> (2 :: real) \<le> 3 \<and> (0 :: real) < 8
   \<and> BTCUp_end_earning_rate_f64 (BTCUp_init_f64 8 100 0 10 135 135) 2 = Inr (3 + 1 / 2 ^ 51)
   \<and> BTCUp_end_earning_rate_f64 (BTCUp_init_f64 8 100 0 10 135 135) 3 = Inr (3 - 1 / 2 ^ 51)
   \<and> (3 - 1 / 2 ^ 51 :: real) < 3 + 1 / 2 ^ 51"
  by (simp add: up_10_at_2 up_10_at_3)

text \<open>
  C6, amended: up to rounding. For a duration that is not negative,
  \<open>low_anual_earning_rate \<le> high_anual_earning_rate\<close> and terminal prices \<open>p1 \<le> p2\<close>: a
  BTCUp with \<open>start_increase_price < end_increase_price\<close> returns at \<open>p1\<close> at most what it
  returns at \<open>p2\<close> plus the share \<open>1 / 2 ^ 49\<close> of the larger magnitude of its two stored
  period rates, and a BTCDown with \<open>start_increase_price > end_increase_price\<close> returns
  at \<open>p2\<close> at most what it returns at \<open>p1\<close> plus that share. Arguments and prices are
  ordinary and the two prices are doubles, as for C10.
\<close>

theorem barrier_end_earning_rate_f64_monotone:
  assumes "0 \<le> d" and "lo \<le> hi" and "p1 \<le> p2"
    and "\<forall>x \<in> {d, c, s, e, lo, hi, p1, p2}. f64_ordinary x"
    and "f64 p1 = p1" and "f64 p2 = p2"
  shows "(s < e \<longrightarrow>
           (\<exists>r1 r2. BTCUp_end_earning_rate_f64 (BTCUp_init_f64 d c s e lo hi) p1 = Inr r1 \<and>
                    BTCUp_end_earning_rate_f64 (BTCUp_init_f64 d c s e lo hi) p2 = Inr r2 \<and>
                    r1 \<le> r2 + max \<bar>up_low_earning_rate (BTCUp_init_f64 d c s e lo hi)\<bar>
                                   \<bar>up_high_earning_rate (BTCUp_init_f64 d c s e lo hi)\<bar> / 2 ^ 49))
       \<and> (e < s \<longrightarrow>
           (\<exists>r1 r2. BTCDown_end_earning_rate_f64 (BTCDown_init_f64 d c s e lo hi) p1 = Inr r1 \<and>
                    BTCDown_end_earning_rate_f64 (BTCDown_init_f64 d c s e lo hi) p2 = Inr r2 \<and>
                    r2 \<le> r1 + max \<bar>down_low_earning_rate (BTCDown_init_f64 d c s e lo hi)\<bar>
                                   \<bar>down_high_earning_rate (BTCDown_init_f64 d c s e lo hi)\<bar> / 2 ^ 49))"
proof -
  have rates: "f64 (f64 (f64 lo / 360) * f64 d) \<le> f64 (f64 (f64 hi / 360) * f64 d)"
    using assms(1,2) by (rule period_rate_f64_mono)
  show ?thesis
    unfolding BTCDown_init_f64_def BTCUp_init_f64_def BTCDown.simps BTCUp.simps
  proof (intro conjI impI)
    assume "s < e"
    then have "f64 s \<le> f64 e" by (intro f64_mono) simp
    then show "\<exists>r1 r2.
       BTCUp_end_earning_rate_f64
        \<lparr>up_duration = f64 d, up_current_price = f64 c, up_start_increase_price = f64 s,
           up_end_increase_price = f64 e,
           up_low_earning_rate = f64 (f64 (f64 lo / 360) * f64 d),
           up_high_earning_rate = f64 (f64 (f64 hi / 360) * f64 d)\<rparr> p1 = Inr r1 \<and>
       BTCUp_end_earning_rate_f64
        \<lparr>up_duration = f64 d, up_current_price = f64 c, up_start_increase_price = f64 s,
           up_end_increase_price = f64 e,
           up_low_earning_rate = f64 (f64 (f64 lo / 360) * f64 d),
           up_high_earning_rate = f64 (f64 (f64 hi / 360) * f64 d)\<rparr> p2 = Inr r2 \<and>
       r1 \<le> r2 + max \<bar>f64 (f64 (f64 lo / 360) * f64 d)\<bar> \<bar>f64 (f64 (f64 hi / 360) * f64 d)\<bar> / 2 ^ 49"
      using rates assms(3) by (rule BTCUp_f64_monotone)
  next
    assume "e < s"
    then have "f64 e \<le> f64 s" by (intro f64_mono) simp
    then show "\<exists>r1 r2.
       BTCDown_end_earning_rate_f64
        \<lparr>down_duration = f64 d, down_current_price = f64 c, down_start_increase_price = f64 s,
           down_end_increase_price = f64 e,
           down_low_earning_rate = f64 (f64 (f64 lo / 360) * f64 d),
           down_high_earning_rate = f64 (f64 (f64 hi / 360) * f64 d)\<rparr> p1 = Inr r1 \<and>
       BTCDown_end_earning_rate_f64
        \<lparr>down_duration = f64 d, down_current_price = f64 c, down_start_increase_price = f64 s,
           down_end_increase_price = f64 e,
           down_low_earning_rate = f64 (f64 (f64 lo / 360) * f64 d),
           down_high_earning_rate = f64 (f64 (f64 hi / 360) * f64 d)\<rparr> p2 = Inr r2 \<and>
       r2 \<le> r1 + max \<bar>f64 (f64 (f64 lo / 360) * f64 d)\<bar> \<bar>f64 (f64 (f64 hi / 360) * f64 d)\<bar> / 2 ^ 49"
      using rates assms(3) by (rule BTCDown_f64_monotone)
  qed
qed

text \<open>
  The two notes of the script, BTCUp at 25000 and 27000, BTCDown at 16000 and 18000.
\<close>

theorem barrier_end_earning_rate_f64_monotone_witness:
  "(\<exists>r1 r2. BTCUp_end_earning_rate_f64 (BTCUp_init_f64 15 21433.64 22000 32000 0.03 0.311) 25000
              = Inr r1 \<and>
            BTCUp_end_earning_rate_f64 (BTCUp_init_f64 15 21433.64 22000 32000 0.03 0.311) 27000
              = Inr r2 \<and>
            r1 \<le> r2 + max \<bar>up_low_earning_rate (BTCUp_init_f64 15 21433.64 22000 32000 0.03 0.311)\<bar>
                            \<bar>up_high_earning_rate (BTCUp_init_f64 15 21433.64 22000 32000 0.03 0.311)\<bar>
                        / 2 ^ 49)
   \<and> (\<exists>r1 r2. BTCDown_end_earning_rate_f64 (BTCDown_init_f64 15 21433.64 20000 15000 0.03 0.164) 16000
              = Inr r1 \<and>
            BTCDown_end_earning_rate_f64 (BTCDown_init_f64 15 21433.64 20000 15000 0.03 0.164) 18000
              = Inr r2 \<and>
            r2 \<le> r1 + max \<bar>down_low_earning_rate (BTCDown_init_f64 15 21433.64 20000 15000 0.03 0.164)\<bar>
                            \<bar>down_high_earning_rate (BTCDown_init_f64 15 21433.64 20000 15000 0.03 0.164)\<bar>
                        / 2 ^ 49)"
proof -
  have d: "(0::real) \<le> 15" by simp
  have r: "(0.03::real) \<le> 0.311" "(0.03::real) \<le> 0.164" by simp_all
  have p: "(25000::real) \<le> 27000" "(16000::real) \<le> 18000" by simp_all
  have c: "(22000::real) < 32000" "(15000::real) < 20000" by simp_all
  have f: "f64 25000 = 25000" "f64 27000 = 27000" "f64 16000 = 16000" "f64 18000 = 18000"
    by (subst f64_eval [where k = 14], simp_all add: round_even_def power_int_minus,
        subst f64_eval [where k = 14], simp_all add: round_even_def power_int_minus,
        subst f64_eval [where k = 13], simp_all add: round_even_def power_int_minus,
        subst f64_eval [where k = 14], simp_all add: round_even_def power_int_minus)
  have o1: "\<forall>x \<in> {15, 21433.64, 22000, 32000, 0.03, 0.311, 25000, 27000 :: real}. f64_ordinary x"
    by (simp add: f64_ordinary_def)
  have o2: "\<forall>x \<in> {15, 21433.64, 20000, 15000, 0.03, 0.164, 16000, 18000 :: real}. f64_ordinary x"
    by (simp add: f64_ordinary_def)
  from barrier_end_earning_rate_f64_monotone [OF d r(1) p(1) o1 f(1) f(2), THEN conjunct1,
      rule_format, OF c(1)]
    barrier_end_earning_rate_f64_monotone [OF d r(2) p(2) o2 f(3) f(4), THEN conjunct2,
      rule_format, OF c(2)]
  show ?thesis by (rule conjI)
qed

text \<open>
  C3, as the claim states it, fails: with equal corridor bounds no terminal price
  makes a barrier note divide by zero. A price that is not at or above the bound is
  below it, so one of the first two branches takes every price and the third branch,
  whose divisor would be zero, is never entered. (Of all floats only NaN fails both
  comparisons, and NaN is no price.) Below, both notes of the script with their corridor
  collapsed to one price.
\<close>

theorem barrier_degenerate_corridor_counterexample:
  "\<not> (\<exists>p. BTCDown_end_earning_rate (BTCDown_init 15 21433.64 20000 20000 0.03 0.164) p
            = Inl ZeroDivisionError)
   \<and> \<not> (\<exists>p. BTCUp_end_earning_rate (BTCUp_init 15 21433.64 22000 22000 0.03 0.311) p
            = Inl ZeroDivisionError)"
  unfolding BTCDown_init_def BTCUp_init_def
  by (simp add: BTCDown_no_corridor BTCUp_no_corridor)

text \<open>
  C3, amended: with \<open>start_increase_price = end_increase_price\<close> a barrier note
  returns a plateau rate for every terminal price and never divides: BTCDown the low
  period rate at or above the bound and the high one below it, BTCUp the low period rate
  at or below the bound and the high one above it. The interpolation formula by itself
  does divide by zero on such a note, at every price; it is unguarded but out of reach.
\<close>

theorem barrier_degenerate_corridor:
  "BTCDown_end_earning_rate (BTCDown_init d c b b lo hi) p =
     Inr (if b \<le> p then lo / 360 * d else hi / 360 * d)
   \<and> BTCUp_end_earning_rate (BTCUp_init d c b b lo hi) p =
     Inr (if p \<le> b then lo / 360 * d else hi / 360 * d)
   \<and> BTCDown_interpolate (BTCDown_init d c b b lo hi) p = Inl ZeroDivisionError
   \<and> BTCUp_interpolate (BTCUp_init d c b b lo hi) p = Inl ZeroDivisionError"
  unfolding BTCDown_init_def BTCUp_init_def
  by (intro conjI BTCDown_no_corridor BTCUp_no_corridor)
     (simp_all add: BTCDown_interpolate_def BTCUp_interpolate_def py_div_def)

theorem barrier_degenerate_corridor_witness:
  "BTCDown_end_earning_rate (BTCDown_init 15 21433.64 20000 20000 0.03 0.164) 20000 = Inr (1 / 800)
   \<and> BTCDown_end_earning_rate (BTCDown_init 15 21433.64 20000 20000 0.03 0.164) 19999
        = Inr (41 / 6000)
   \<and> BTCUp_end_earning_rate (BTCUp_init 15 21433.64 20000 20000 0.03 0.164) 20000 = Inr (1 / 800)
   \<and> BTCUp_end_earning_rate (BTCUp_init 15 21433.64 20000 20000 0.03 0.164) 20001
        = Inr (41 / 6000)"
  using barrier_degenerate_corridor [of 15 "21433.64" 20000 "0.03" "0.164" 20000]
    barrier_degenerate_corridor [of 15 "21433.64" 20000 "0.03" "0.164" 19999]
    barrier_degenerate_corridor [of 15 "21433.64" 20000 "0.03" "0.164" 20001]
  by simp

subsection \<open>BTCwithStop: spot with a stop price\<close>

text \<open>
  C7. For a BTCwithStop with \<open>current_price > 0\<close> and every terminal price: above
  the stop price the method returns \<open>(end_price - current_price) / current_price\<close>, at
  or below it \<open>(stop_price - current_price) / current_price\<close>; so it always returns a
  number (never \<open>None\<close>, never an error), and that number is at least
  \<open>(stop_price - current_price) / current_price\<close>. The floor holds for every stop
  price, in particular for \<open>stop_price \<le> current_price\<close>.
\<close>

theorem BTCwithStop_end_earning_rate_floor:
  assumes "0 < current_price"
  shows "(stop_price < end_price \<longrightarrow>
            BTCwithStop_end_earning_rate (BTCwithStop_init current_price stop_price) end_price =
              Inr (Some ((end_price - current_price) / current_price)))
       \<and> (end_price \<le> stop_price \<longrightarrow>
            BTCwithStop_end_earning_rate (BTCwithStop_init current_price stop_price) end_price =
              Inr (Some ((stop_price - current_price) / current_price)))
       \<and> (\<exists>r. BTCwithStop_end_earning_rate (BTCwithStop_init current_price stop_price) end_price =
              Inr (Some r) \<and> (stop_price - current_price) / current_price \<le> r)"
proof -
  have ne: "current_price \<noteq> 0" using assms by simp
  have gt: "stop_price < end_price \<Longrightarrow>
      (stop_price - current_price) / current_price \<le> (end_price - current_price) / current_price"
    using assms by (simp add: divide_right_mono)
  show ?thesis
  proof (cases "stop_price < end_price")
    case True
    then show ?thesis using ne gt
      by (simp add: BTCwithStop_end_earning_rate_def BTCwithStop_init_def py_div_def)
  next
    case False
    then show ?thesis using ne
      by (simp add: BTCwithStop_end_earning_rate_def BTCwithStop_init_def py_div_def)
  qed
qed

theorem BTCwithStop_end_earning_rate_floor_witness:
  "BTCwithStop_end_earning_rate (BTCwithStop_init 20000 15000) 18000 = Inr (Some (- (1 / 10)))
   \<and> BTCwithStop_end_earning_rate (BTCwithStop_init 20000 15000) 15000 = Inr (Some (- (1 / 4)))
   \<and> BTCwithStop_end_earning_rate (BTCwithStop_init 20000 15000) 10000 = Inr (Some (- (1 / 4)))"
proof -
  have h: "(0::real) < 20000" by simp
  show ?thesis
    using BTCwithStop_end_earning_rate_floor [OF h, of 15000 18000]
      BTCwithStop_end_earning_rate_floor [OF h, of 15000 15000]
      BTCwithStop_end_earning_rate_floor [OF h, of 15000 10000]
    by simp
qed

subsection \<open>BTCGrid: grid trading blended with spot\<close>

text \<open>
  C2. For every BTCGrid and terminal price: with \<open>non_stop = True\<close> the method
  returns the grid period rate times 1.0 plus half of
  \<open>end_btc_earning_rate(end_price)\<close>; with \<open>non_stop = False\<close>, \<open>hold_rate < 1.0\<close> and
  \<open>stop_mode\<close> one of \<^verbatim>\<open>'high'\<close> and \<^verbatim>\<open>'low'\<close> it returns the grid period rate times
  \<open>hold_rate\<close> plus half of \<open>end_btc_earning_rate\<close> at \<open>high_price\<close> for \<^verbatim>\<open>'high'\<close> and
  at \<open>low_price\<close> otherwise. In the stopped branch the terminal price is not used: any
  two terminal prices give the same outcome. An error of \<open>end_btc_earning_rate\<close> (its
  division by a zero \<open>current_price\<close>) is the error of the method.
\<close>

theorem BTCGrid_end_earning_rate_cases:
  "BTCGrid_end_earning_rate (BTCGrid_init c lo hi a d) end_price True hold_rate stop_mode =
     (case BTCGrid_end_btc_earning_rate (BTCGrid_init c lo hi a d) end_price of
        Inl err \<Rightarrow> Inl err
      | Inr spot \<Rightarrow> Inr (a / 360 * d * 1.0 + 0.5 * spot))
   \<and> (hold_rate < 1.0 \<and> (stop_mode = ''high'' \<or> stop_mode = ''low'') \<longrightarrow>
        BTCGrid_end_earning_rate (BTCGrid_init c lo hi a d) end_price False hold_rate stop_mode =
          (case BTCGrid_end_btc_earning_rate (BTCGrid_init c lo hi a d)
                  (if stop_mode = ''high'' then hi else lo) of
             Inl err \<Rightarrow> Inl err
           | Inr spot \<Rightarrow> Inr (a / 360 * d * hold_rate + 0.5 * spot)))
   \<and> BTCGrid_end_earning_rate (BTCGrid_init c lo hi a d) end_price False hold_rate stop_mode =
       BTCGrid_end_earning_rate (BTCGrid_init c lo hi a d) end_price' False hold_rate stop_mode"
  by (auto simp: BTCGrid_end_earning_rate_def BTCGrid_end_grid_earning_rate_def BTCGrid_init_def
      split: sum.splits)

text \<open>
  The grid of the spec's scenario at 21000, running and stopped out at the low price
  with no holding time (the script's mode \<^verbatim>\<open>'bad'\<close>).
\<close>

theorem BTCGrid_end_earning_rate_cases_witness:
  "BTCGrid_end_earning_rate (BTCGrid_init 21433.64 20000 22000 1.1102 15) 21000 True 1.0 ''low''
     = Inr (1.1102 / 360 * 15 * 1.0 + 0.5 * ((21000 - 21433.64) / 21433.64))
   \<and> BTCGrid_end_earning_rate (BTCGrid_init 21433.64 20000 22000 1.1102 15) 21000 False 0 ''low''
     = Inr (1.1102 / 360 * 15 * 0 + 0.5 * ((20000 - 21433.64) / 21433.64))
   \<and> BTCGrid_end_earning_rate (BTCGrid_init 21433.64 20000 22000 1.1102 15) 21000 False 0.5 ''high''
     = BTCGrid_end_earning_rate (BTCGrid_init 21433.64 20000 22000 1.1102 15) 25000 False 0.5 ''high''"
proof -
  let ?g = "BTCGrid_init 21433.64 20000 22000 1.1102 15"
  have spot: "BTCGrid_end_btc_earning_rate ?g 21000 = Inr ((21000 - 21433.64) / 21433.64)"
    "BTCGrid_end_btc_earning_rate ?g 20000 = Inr ((20000 - 21433.64) / 21433.64)"
    by (simp_all add: BTCGrid_end_btc_earning_rate_def BTCGrid_init_def py_div_def)
  have pre: "(0::real) < 1.0 \<and> (''low'' = ''high'' \<or> ''low'' = ''low'')" by simp
  have low: "(if ''low'' = ''high'' then (22000::real) else 20000) = 20000" by simp
  note t1 = BTCGrid_end_earning_rate_cases
      [where c = "21433.64" and lo = 20000 and hi = 22000 and a = "1.1102" and d = 15
         and end_price = 21000 and hold_rate = "1.0" and stop_mode = "''low''"]
  note t2 = BTCGrid_end_earning_rate_cases
      [where c = "21433.64" and lo = 20000 and hi = 22000 and a = "1.1102" and d = 15
         and end_price = 21000 and hold_rate = 0 and stop_mode = "''low''"]
  note t3 = BTCGrid_end_earning_rate_cases
      [where c = "21433.64" and lo = 20000 and hi = 22000 and a = "1.1102" and d = 15
         and end_price = 21000 and hold_rate = "0.5" and stop_mode = "''high''"
         and end_price' = 25000]
  have a: "BTCGrid_end_earning_rate ?g 21000 True 1.0 ''low''
     = Inr (1.1102 / 360 * 15 * 1.0 + 0.5 * ((21000 - 21433.64) / 21433.64))"
    using t1 [THEN conjunct1] by (simp only: spot sum.case)
  have b: "BTCGrid_end_earning_rate ?g 21000 False 0 ''low''
     = Inr (1.1102 / 360 * 15 * 0 + 0.5 * ((20000 - 21433.64) / 21433.64))"
    using t2 [THEN conjunct2, THEN conjunct1, rule_format, OF pre]
    by (simp only: low spot sum.case)
  have c: "BTCGrid_end_earning_rate ?g 21000 False 0.5 ''high''
     = BTCGrid_end_earning_rate ?g 25000 False 0.5 ''high''"
    using t3 [THEN conjunct2, THEN conjunct2] .
  from a b c show ?thesis by (intro conjI)
qed

text \<open>
  C9. Called with \<open>non_stop = False\<close> the method fails with an assertion error if and
  only if \<open>hold_rate \<ge> 1.0\<close> or \<open>stop_mode\<close> is neither \<^verbatim>\<open>'high'\<close> nor \<^verbatim>\<open>'low'\<close>; in
  particular the call with \<open>hold_rate = 1.0\<close> and \<^verbatim>\<open>'low'\<close> does. Called with
  \<open>non_stop = True\<close> it never fails so, whatever \<open>hold_rate\<close> and \<open>stop_mode\<close> are: the
  assertions are not reached, and the two arguments are not read, so the outcome is the
  same for all of them. On a grid with \<open>current_price \<noteq> 0\<close>, as every price of the
  spec is, the assertions are the only failures: the running call returns a number, and
  the stopped call fails exactly under the condition above.
\<close>

theorem BTCGrid_end_earning_rate_failures:
  "(BTCGrid_end_earning_rate self p False h m = Inl AssertionError
      \<longleftrightarrow> 1 \<le> h \<or> m \<notin> {''high'', ''low''})
   \<and> BTCGrid_end_earning_rate self p False 1.0 ''low'' = Inl AssertionError
   \<and> BTCGrid_end_earning_rate self p True h m \<noteq> Inl AssertionError
   \<and> BTCGrid_end_earning_rate self p True h m = BTCGrid_end_earning_rate self p True h' m'
   \<and> (grid_initial_price self \<noteq> 0 \<longrightarrow>
        (\<exists>r. BTCGrid_end_earning_rate self p True h m = Inr r) \<and>
        ((\<exists>err. BTCGrid_end_earning_rate self p False h m = Inl err)
           \<longleftrightarrow> 1 \<le> h \<or> m \<notin> {''high'', ''low''}))"
  by (auto simp: BTCGrid_end_earning_rate_def BTCGrid_end_btc_earning_rate_def py_div_def
      split: sum.splits if_splits)

theorem BTCGrid_end_earning_rate_failures_witness:
  "BTCGrid_end_earning_rate (BTCGrid_init 21433.64 20000 22000 1.1102 15) 21000 False 1.0 ''low''
     = Inl AssertionError
   \<and> BTCGrid_end_earning_rate (BTCGrid_init 21433.64 20000 22000 1.1102 15) 21000 False 0.5 ''mid''
     = Inl AssertionError
   \<and> (\<exists>r. BTCGrid_end_earning_rate (BTCGrid_init 21433.64 20000 22000 1.1102 15) 21000 True 1.0 ''mid''
     = Inr r)
   \<and> (\<nexists>err. BTCGrid_end_earning_rate (BTCGrid_init 21433.64 20000 22000 1.1102 15) 21000 False 0.5 ''high''
     = Inl err)"
  using BTCGrid_end_earning_rate_failures
          [of "BTCGrid_init 21433.64 20000 22000 1.1102 15" 21000 "1.0" "''low''"]
        BTCGrid_end_earning_rate_failures
          [of "BTCGrid_init 21433.64 20000 22000 1.1102 15" 21000 "0.5" "''mid''"]
        BTCGrid_end_earning_rate_failures
          [of "BTCGrid_init 21433.64 20000 22000 1.1102 15" 21000 "1.0" "''mid''"]
        BTCGrid_end_earning_rate_failures
          [of "BTCGrid_init 21433.64 20000 22000 1.1102 15" 21000 "0.5" "''high''"]
  by (simp add: BTCGrid_init_def)

subsection \<open>Further properties\<close>

text \<open>
  On a grid with \<open>low_price \<le> high_price\<close> and \<open>current_price \<noteq> 0\<close> the spot part is
  the return at the terminal price clamped to the band, so a price 1000 below the band
  earns what \<open>low_price\<close> earns and a price 1000 above it what \<open>high_price\<close> earns.
\<close>

theorem BTCGrid_end_btc_earning_rate_clamped:
  assumes "lo \<le> hi" and "c \<noteq> 0"
  shows "BTCGrid_end_btc_earning_rate (BTCGrid_init c lo hi a d) p =
           Inr ((max lo (min hi p) - c) / c)
       \<and> BTCGrid_end_btc_earning_rate (BTCGrid_init c lo hi a d) (lo - 1000) =
           BTCGrid_end_btc_earning_rate (BTCGrid_init c lo hi a d) lo
       \<and> BTCGrid_end_btc_earning_rate (BTCGrid_init c lo hi a d) (hi + 1000) =
           BTCGrid_end_btc_earning_rate (BTCGrid_init c lo hi a d) hi"
  using assms
  by (simp add: BTCGrid_end_btc_earning_rate_def BTCGrid_init_def py_div_def max_def min_def)

theorem BTCGrid_end_btc_earning_rate_clamped_witness:
  "BTCGrid_end_btc_earning_rate (BTCGrid_init 20000 18000 22000 1.1102 15) 25000 = Inr (1 / 10)
   \<and> BTCGrid_end_btc_earning_rate (BTCGrid_init 20000 18000 22000 1.1102 15) 17000 =
       BTCGrid_end_btc_earning_rate (BTCGrid_init 20000 18000 22000 1.1102 15) 18000
   \<and> BTCGrid_end_btc_earning_rate (BTCGrid_init 20000 18000 22000 1.1102 15) 23000 =
       BTCGrid_end_btc_earning_rate (BTCGrid_init 20000 18000 22000 1.1102 15) 22000"
proof -
  have h: "(18000::real) \<le> 22000" "(20000::real) \<noteq> 0" by simp_all
  from BTCGrid_end_btc_earning_rate_clamped [OF h, of "1.1102" 15 25000]
  show ?thesis by simp
qed

text \<open>
  What C3, C4 and C5 say of the barrier notes in exact arithmetic holds on the doubles
  too. Over a proper corridor of stored bounds the interpolation branch in doubles,
  taken at the stored \<open>start_increase_price\<close>, is exactly the stored low period rate,
  and taken at the stored \<open>end_increase_price\<close> exactly the stored high one: there one
  weight is the double 1 and the other the double 0. A BTCDown returns what the BTCUp with
  swapped bounds and swapped rates returns. With equal stored bounds every price gets a
  stored rate and nothing is divided.
\<close>

theorem barrier_f64_agrees:
  "(f64 e < f64 s \<longrightarrow>
      BTCDown_interpolate_f64 (BTCDown_init_f64 d c s e lo hi) (f64 s)
        = Inr (down_low_earning_rate (BTCDown_init_f64 d c s e lo hi)) \<and>
      BTCDown_interpolate_f64 (BTCDown_init_f64 d c s e lo hi) (f64 e)
        = Inr (down_high_earning_rate (BTCDown_init_f64 d c s e lo hi)) \<and>
      BTCDown_end_earning_rate_f64 (BTCDown_init_f64 d c s e lo hi) p
        = BTCUp_end_earning_rate_f64 (BTCUp_init_f64 d c e s hi lo) p)
   \<and> (f64 s < f64 e \<longrightarrow>
      BTCUp_interpolate_f64 (BTCUp_init_f64 d c s e lo hi) (f64 s)
        = Inr (up_low_earning_rate (BTCUp_init_f64 d c s e lo hi)) \<and>
      BTCUp_interpolate_f64 (BTCUp_init_f64 d c s e lo hi) (f64 e)
        = Inr (up_high_earning_rate (BTCUp_init_f64 d c s e lo hi)))
   \<and> (f64 s = f64 e \<longrightarrow>
      BTCDown_end_earning_rate_f64 (BTCDown_init_f64 d c s e lo hi) p
        = Inr (if f64 s \<le> p then down_low_earning_rate (BTCDown_init_f64 d c s e lo hi)
               else down_high_earning_rate (BTCDown_init_f64 d c s e lo hi)) \<and>
      BTCUp_end_earning_rate_f64 (BTCUp_init_f64 d c s e lo hi) p
        = Inr (if p \<le> f64 s then up_low_earning_rate (BTCUp_init_f64 d c s e lo hi)
               else up_high_earning_rate (BTCUp_init_f64 d c s e lo hi)))"
  unfolding BTCDown_init_f64_def BTCUp_init_f64_def BTCDown.simps BTCUp.simps
  by (intro conjI impI BTCDown_interpolate_f64_ends BTCUp_interpolate_f64_ends
        BTCDown_f64_mirror BTCDown_f64_no_corridor BTCUp_f64_no_corridor)
     simp_all

theorem barrier_f64_agrees_witness:
  "BTCUp_interpolate_f64 (BTCUp_init_f64 15 21433.64 22000 32000 0.03 0.311) 22000
     = Inr (up_low_earning_rate (BTCUp_init_f64 15 21433.64 22000 32000 0.03 0.311))
   \<and> BTCUp_interpolate_f64 (BTCUp_init_f64 15 21433.64 22000 32000 0.03 0.311) 32000
     = Inr (up_high_earning_rate (BTCUp_init_f64 15 21433.64 22000 32000 0.03 0.311))"
proof -
  have f: "f64 22000 = 22000" "f64 32000 = 32000"
    by (subst f64_eval [where k = 14], simp_all add: round_even_def power_int_minus,
        subst f64_eval [where k = 14], simp_all add: round_even_def power_int_minus)
  have c: "f64 22000 < f64 32000" by (simp add: f)
  from barrier_f64_agrees [where s = 22000 and e = 32000 and d = 15 and c = "21433.64"
      and lo = "0.03" and hi = "0.311", THEN conjunct2,
      THEN conjunct1, rule_format, OF c]
  show ?thesis by (simp only: f)
qed

text \<open>
  The two readings of a barrier note stay close: on the same stored bounds and rates,
  and at every price, the method in exact arithmetic and the method in doubles both
  return a number, and the two numbers differ by at most the share \<open>1 / 2 ^ 50\<close> of the
  larger magnitude of the two stored period rates.
\<close>

theorem barrier_f64_near_exact:
  "(\<exists>r r'. BTCDown_end_earning_rate (BTCDown_init_f64 d c s e lo hi) p = Inr r \<and>
            BTCDown_end_earning_rate_f64 (BTCDown_init_f64 d c s e lo hi) p = Inr r' \<and>
            \<bar>r' - r\<bar> \<le> max \<bar>down_low_earning_rate (BTCDown_init_f64 d c s e lo hi)\<bar>
                              \<bar>down_high_earning_rate (BTCDown_init_f64 d c s e lo hi)\<bar> / 2 ^ 50)
   \<and> (\<exists>r r'. BTCUp_end_earning_rate (BTCUp_init_f64 d c s e lo hi) p = Inr r \<and>
            BTCUp_end_earning_rate_f64 (BTCUp_init_f64 d c s e lo hi) p = Inr r' \<and>
            \<bar>r' - r\<bar> \<le> max \<bar>up_low_earning_rate (BTCUp_init_f64 d c s e lo hi)\<bar>
                              \<bar>up_high_earning_rate (BTCUp_init_f64 d c s e lo hi)\<bar> / 2 ^ 50)"
  unfolding BTCDown_init_f64_def BTCUp_init_f64_def BTCDown.simps BTCUp.simps
  by (intro conjI BTCDown_f64_near_exact BTCUp_f64_near_exact)

end
